theory Spec2Isabelle
  imports Main "HOL-Library.Word"
begin

section \<open>JavaScript strings\<close>

text \<open>
  Free text (message content, prompts, generated replies) is a JavaScript string: a
  sequence of UTF-16 code units, so \<open>length\<close> is what \<^verbatim>\<open>.length\<close> counts.
  Identifiers and fixed tags (\<^verbatim>\<open>'user'\<close>, \<^verbatim>\<open>'ai'\<close>, \<^verbatim>\<open>'active'\<close>, error
  texts) are ASCII and only ever compared, so they are HOL strings; \<open>js\<close> embeds such a
  string into a JavaScript string where the source splices one into free text.
\<close>

type_synonym js_string = "16 word list"

definition js :: "string \<Rightarrow> js_string" where
  "js s = map (\<lambda>c. of_nat (of_char c)) s"

text \<open>The code units that \<^verbatim>\<open>String.prototype.trim\<close> strips (WhiteSpace and LineTerminator).\<close>

definition isWhiteSpace :: "16 word \<Rightarrow> bool" where
  "isWhiteSpace c \<longleftrightarrow>
     c \<in> set [0x0009, 0x000A, 0x000B, 0x000C, 0x000D, 0x0020, 0x00A0, 0x1680,
               0x2000, 0x2001, 0x2002, 0x2003, 0x2004, 0x2005, 0x2006, 0x2007,
               0x2008, 0x2009, 0x200A, 0x2028, 0x2029, 0x202F, 0x205F, 0x3000, 0xFEFF]"

definition trim :: "js_string \<Rightarrow> js_string" where
  "trim s = rev (dropWhile isWhiteSpace (rev (dropWhile isWhiteSpace s)))"

text \<open>\<^verbatim>\<open>s.includes(sub)\<close>: \<open>sub\<close> occurs in \<open>s\<close> as a contiguous run.\<close>

fun js_includes :: "js_string \<Rightarrow> js_string \<Rightarrow> bool" where
  "js_includes [] sub = (sub = [])"
| "js_includes (c # cs) sub = (take (length sub) (c # cs) = sub \<or> js_includes cs sub)"

text \<open>\<^verbatim>\<open>s.split(' ').length\<close>: one more than the number of spaces.\<close>

definition split_space_count :: "js_string \<Rightarrow> nat" where
  "split_space_count s = Suc (length (filter (\<lambda>c. c = 0x0020) s))"

section \<open>Stored records (prisma/schema.prisma)\<close>

record message =
  m_id :: string
  m_chatroomId :: string
  m_content :: js_string
  m_sender :: string
  m_messageType :: string
  m_createdAt :: nat

record chatroom =
  c_id :: string
  c_userId :: string
  c_updatedAt :: nat

record user =
  u_id :: string
  u_subscriptionTier :: string
  u_subscriptionStatus :: string
  u_dailyMessageCount :: int
  u_lastMessageDate :: "nat option"

record dailyUsage =
  d_id :: string
  d_userId :: string
  d_date :: nat
  d_messageCount :: int

section \<open>Jobs and the generation service's request (services/queue.service.ts, gemini.service.ts)\<close>

record job_context =
  cx_messageType :: "string option"
  cx_chatRoomId :: "string option"
  cx_userId :: "string option"

record job_metadata =
  md_timestamp :: nat
  md_clientId :: "string option"
  md_sessionId :: "string option"

record GeminiMessageJob =
  j_messageId :: string
  j_chatRoomId :: string
  j_userId :: string
  j_userMessage :: js_string
  j_context :: "job_context option"
  j_metadata :: "job_metadata option"

record queued_job =
  q_id :: nat
  q_data :: GeminiMessageJob
  q_priority :: nat
  q_delay :: nat

datatype role = RoleUser | RoleModel

record GeminiMessage =
  g_role :: role
  g_parts :: "js_string list"

record GeminiContext =
  gc_chatRoomId :: string
  gc_userId :: string
  gc_conversationHistory :: "GeminiMessage list"
  gc_systemPrompt :: "js_string option"
  gc_maxTokens :: "nat option"

text \<open>What \<^verbatim>\<open>generateResponse\<close> hands to the external service: the chat history of
  \<^verbatim>\<open>startChat\<close>, the token budget and the prompt of \<^verbatim>\<open>chat.sendMessage\<close>. (The
  temperature is the constant 0.7 on every path and is left out.)\<close>

record gen_request =
  rq_history :: "GeminiMessage list"
  rq_maxOutputTokens :: nat
  rq_prompt :: js_string

section \<open>The world: store, queue, and what was sent to the collaborators\<close>

text \<open>
  \<open>w_geminiQueue\<close> is \<open>None\<close> while \<^verbatim>\<open>QueueService.initialize\<close> has not registered the
  queue. \<open>w_genRequests\<close> and \<open>w_cacheInvalidations\<close> record every call made to the
  generation service and to \<^verbatim>\<open>CacheService.invalidateMessageCache\<close>. \<open>w_cuid\<close> is the
  store's identifier generator and \<open>w_now\<close> the clock.
\<close>

record world =
  w_messages :: "message list"
  w_chatrooms :: "chatroom list"
  w_users :: "user list"
  w_dailyUsages :: "dailyUsage list"
  w_geminiQueue :: "queued_job list option"
  w_genRequests :: "gen_request list"
  w_cacheInvalidations :: "(string \<times> string) list"
  w_now :: nat
  w_nextId :: nat
  w_cuid :: "nat \<Rightarrow> string"
  w_nextJobId :: nat

section \<open>Errors and effects\<close>

text \<open>
  Every call that can be unavailable (the Prisma client, one of its queries, Redis behind
  the queue) is named by a \<open>store_op\<close>; the list of operations that are down during a
  handler run is a parameter of the handler. An exception is \<open>Inl\<close> of an \<open>error\<close>; the
  world is returned on both paths, because writes made before a throw stay made (the
  source uses no transaction).
\<close>

datatype store_op =
  GetClient | UserFindUnique | UserUpdate | ChatroomFindFirst | ChatroomUpdate
  | MessageCreate | MessageFindMany
  | DailyUsageFindUnique | DailyUsageCreate | DailyUsageUpdate
  | QueueAdd | UpdateProgress nat

datatype error =
  ValidationError string
  | NotFoundError string
  | Error string
  | StoreError store_op
  | UniqueConstraintViolation
  | RecordNotFound

type_synonym 'a io = "world \<Rightarrow> (error + 'a) \<times> world"

definition io_return :: "'a \<Rightarrow> 'a io" where
  "io_return a w = (Inr a, w)"

definition io_throw :: "error \<Rightarrow> 'a io" where
  "io_throw e w = (Inl e, w)"

definition io_bind :: "'a io \<Rightarrow> ('a \<Rightarrow> 'b io) \<Rightarrow> 'b io" where
  "io_bind m f w = (case m w of (Inl e, w') \<Rightarrow> (Inl e, w') | (Inr a, w') \<Rightarrow> f a w')"

definition io_catch :: "'a io \<Rightarrow> (error \<Rightarrow> 'a io) \<Rightarrow> 'a io" where
  "io_catch m h w = (case m w of (Inl e, w') \<Rightarrow> h e w' | (Inr a, w') \<Rightarrow> (Inr a, w'))"

definition available :: "store_op list \<Rightarrow> store_op \<Rightarrow> unit io" where
  "available down op = (if op \<in> set down then io_throw (StoreError op) else io_return ())"

text \<open>\<^verbatim>\<open>DatabaseConfig.getClient\<close> throws while the client is not initialised.\<close>

definition getClient :: "store_op list \<Rightarrow> unit io" where
  "getClient down =
     (if GetClient \<in> set down
      then io_throw (Error ''Database not initialized. Call initialize() first.'')
      else io_return ())"

definition newId :: "string io" where
  "newId w = (Inr (w_cuid w (w_nextId w)), w\<lparr>w_nextId := Suc (w_nextId w)\<rparr>)"

subsection \<open>The Prisma queries the pipeline uses\<close>

definition user_findUnique :: "store_op list \<Rightarrow> string \<Rightarrow> user option io" where
  "user_findUnique down uid =
     io_bind (available down UserFindUnique)
       (\<lambda>_ w. (Inr (find (\<lambda>u. u_id u = uid) (w_users w)), w))"

text \<open>\<^verbatim>\<open>update\<close> on a missing row throws.\<close>

definition user_update :: "store_op list \<Rightarrow> string \<Rightarrow> (user \<Rightarrow> user) \<Rightarrow> unit io" where
  "user_update down uid f =
     io_bind (available down UserUpdate)
       (\<lambda>_ w. if \<exists>u \<in> set (w_users w). u_id u = uid
               then (Inr (), w\<lparr>w_users := map (\<lambda>u. if u_id u = uid then f u else u) (w_users w)\<rparr>)
               else (Inl RecordNotFound, w))"

definition chatroom_findFirst :: "store_op list \<Rightarrow> (chatroom \<Rightarrow> bool) \<Rightarrow> chatroom option io" where
  "chatroom_findFirst down P =
     io_bind (available down ChatroomFindFirst)
       (\<lambda>_ w. (Inr (find P (w_chatrooms w)), w))"

definition chatroom_update :: "store_op list \<Rightarrow> string \<Rightarrow> (chatroom \<Rightarrow> chatroom) \<Rightarrow> unit io" where
  "chatroom_update down cid f =
     io_bind (available down ChatroomUpdate)
       (\<lambda>_ w. if \<exists>c \<in> set (w_chatrooms w). c_id c = cid
               then (Inr (), w\<lparr>w_chatrooms := map (\<lambda>c. if c_id c = cid then f c else c) (w_chatrooms w)\<rparr>)
               else (Inl RecordNotFound, w))"

definition message_create ::
  "store_op list \<Rightarrow> string \<Rightarrow> js_string \<Rightarrow> string \<Rightarrow> string \<Rightarrow> message io" where
  "message_create down cid content sender mtype =
     io_bind (available down MessageCreate) (\<lambda>_.
     io_bind newId (\<lambda>i w.
       let m = \<lparr>m_id = i, m_chatroomId = cid, m_content = content, m_sender = sender,
                m_messageType = mtype, m_createdAt = w_now w\<rparr>
       in (Inr m, w\<lparr>w_messages := w_messages w @ [m]\<rparr>)))"

text \<open>\<^verbatim>\<open>findMany({where: {chatroomId}, orderBy: {createdAt: 'asc'}, take})\<close>.\<close>

definition message_findMany_asc :: "store_op list \<Rightarrow> string \<Rightarrow> nat \<Rightarrow> message list io" where
  "message_findMany_asc down cid n =
     io_bind (available down MessageFindMany)
       (\<lambda>_ w. (Inr (take n (sort_key m_createdAt
                        (filter (\<lambda>m. m_chatroomId m = cid) (w_messages w)))), w))"

definition dailyUsage_findUnique :: "store_op list \<Rightarrow> string \<Rightarrow> nat \<Rightarrow> dailyUsage option io" where
  "dailyUsage_findUnique down uid day =
     io_bind (available down DailyUsageFindUnique)
       (\<lambda>_ w. (Inr (find (\<lambda>d. d_userId d = uid \<and> d_date d = day) (w_dailyUsages w)), w))"

text \<open>\<^verbatim>\<open>@@unique([userId, date])\<close>: a second row for the same user and day is refused.\<close>

definition dailyUsage_create :: "store_op list \<Rightarrow> string \<Rightarrow> nat \<Rightarrow> int \<Rightarrow> dailyUsage io" where
  "dailyUsage_create down uid day n =
     io_bind (available down DailyUsageCreate) (\<lambda>_ w.
       if \<exists>d \<in> set (w_dailyUsages w). d_userId d = uid \<and> d_date d = day
       then (Inl UniqueConstraintViolation, w)
       else io_bind newId (\<lambda>i w'.
              let d = \<lparr>d_id = i, d_userId = uid, d_date = day, d_messageCount = n\<rparr>
              in (Inr d, w'\<lparr>w_dailyUsages := w_dailyUsages w' @ [d]\<rparr>)) w)"

definition dailyUsage_update :: "store_op list \<Rightarrow> string \<Rightarrow> int \<Rightarrow> dailyUsage io" where
  "dailyUsage_update down i n =
     io_bind (available down DailyUsageUpdate) (\<lambda>_ w.
       case find (\<lambda>d. d_id d = i) (w_dailyUsages w) of
         None \<Rightarrow> (Inl RecordNotFound, w)
       | Some d \<Rightarrow>
           (Inr (d\<lparr>d_messageCount := n\<rparr>),
            w\<lparr>w_dailyUsages :=
                 map (\<lambda>d. if d_id d = i then d\<lparr>d_messageCount := n\<rparr> else d) (w_dailyUsages w)\<rparr>))"

text \<open>\<^verbatim>\<open>CacheService.invalidateMessageCache\<close>: each \<^verbatim>\<open>deleteByPattern\<close> swallows its
  own errors, so the call never throws.\<close>

definition invalidateMessageCache :: "string \<Rightarrow> string \<Rightarrow> unit io" where
  "invalidateMessageCache cid uid w =
     (Inr (), w\<lparr>w_cacheInvalidations := w_cacheInvalidations w @ [(cid, uid)]\<rparr>)"

section \<open>SubscriptionService (services/subscription.service.ts)\<close>

text \<open>\<^verbatim>\<open>AppConfig.basicTierDailyLimit\<close> and \<^verbatim>\<open>proTierDailyLimit\<close>: integers read from the
  environment (5 and 1000 when unset).\<close>

record config =
  basicTierDailyLimit :: int
  proTierDailyLimit :: int

definition defaultConfig :: config where
  "defaultConfig = \<lparr>basicTierDailyLimit = 5, proTierDailyLimit = 1000\<rparr>"

record SubscriptionLimits =
  dailyMessageLimit :: int
  features :: "string list"

definition getSubscriptionLimits :: "config \<Rightarrow> string \<Rightarrow> SubscriptionLimits" where
  "getSubscriptionLimits cfg tier =
     (if tier = ''pro''
      then \<lparr>dailyMessageLimit = proTierDailyLimit cfg,
            features = [''unlimited_messages'', ''priority_support'', ''advanced_ai'']\<rparr>
      else \<lparr>dailyMessageLimit = basicTierDailyLimit cfg,
            features = [''basic_messages'', ''standard_support'']\<rparr>)"

record can_send =
  canSend :: bool
  reason :: "string option"

definition canSendMessage :: "config \<Rightarrow> store_op list \<Rightarrow> string \<Rightarrow> can_send io" where
  "canSendMessage cfg down uid =
     io_catch
       (io_bind (getClient down) (\<lambda>_.
        io_bind (user_findUnique down uid) (\<lambda>found.
          case found of
            None \<Rightarrow> io_return \<lparr>canSend = False, reason = Some ''User not found''\<rparr>
          | Some u \<Rightarrow>
              if u_subscriptionStatus u \<noteq> ''active''
              then io_return \<lparr>canSend = False, reason = Some ''Inactive subscription''\<rparr>
              else if u_dailyMessageCount u
                        \<ge> dailyMessageLimit (getSubscriptionLimits cfg (u_subscriptionTier u))
              then io_return \<lparr>canSend = False, reason = Some ''Daily message limit exceeded''\<rparr>
              else io_return \<lparr>canSend = True, reason = None\<rparr>)))
       (\<lambda>e. io_return \<lparr>canSend = False, reason = Some ''System error''\<rparr>)"

text \<open>\<^verbatim>\<open>today.setHours(0, 0, 0, 0)\<close>, with the clock in milliseconds.\<close>

definition startOfDay :: "nat \<Rightarrow> nat" where
  "startOfDay t = t - t mod 86400000"

text \<open>
  \<^verbatim>\<open>trackMessageUsage\<close> awaits three store calls in turn: the read of today's row, the
  write of the row (a create with count 1, or an update to the count that was read plus
  one), and the copy of the new count into the user row. Its \<^verbatim>\<open>catch\<close> rethrows.
\<close>

definition trackMessageUsage :: "store_op list \<Rightarrow> string \<Rightarrow> unit io" where
  "trackMessageUsage down uid =
     io_bind (getClient down) (\<lambda>_.
     io_bind (\<lambda>w. (Inr (startOfDay (w_now w)), w)) (\<lambda>today.
     io_bind (dailyUsage_findUnique down uid today) (\<lambda>found.
     io_bind (case found of
                None \<Rightarrow> dailyUsage_create down uid today 1
              | Some usage \<Rightarrow> dailyUsage_update down (d_id usage) (d_messageCount usage + 1))
       (\<lambda>usage.
     io_bind (\<lambda>w. (Inr (w_now w), w)) (\<lambda>t.
       user_update down uid
         (\<lambda>u. u\<lparr>u_dailyMessageCount := d_messageCount usage, u_lastMessageDate := Some t\<rparr>))))))"

section \<open>MessageService.createMessage (services/message.service.ts)\<close>

record CreateMessageData =
  cm_content :: js_string
  cm_sender :: string
  cm_messageType :: "string option"

text \<open>\<^verbatim>\<open>x || 'text'\<close>: an absent or empty value falls back.\<close>

definition or_default :: "string option \<Rightarrow> string \<Rightarrow> string" where
  "or_default x d = (case x of None \<Rightarrow> d | Some s \<Rightarrow> if s = [] then d else s)"

definition createMessage ::
  "config \<Rightarrow> store_op list \<Rightarrow> string \<Rightarrow> string \<Rightarrow> CreateMessageData \<Rightarrow> message io" where
  "createMessage cfg down cid uid d =
     (if cm_content d = [] \<or> length (trim (cm_content d)) = 0
      then io_throw (ValidationError ''Message content is required'')
      else if length (cm_content d) > 4000
      then io_throw (ValidationError ''Message content cannot exceed 4000 characters'')
      else if cm_sender d \<notin> set [''user'', ''ai'']
      then io_throw (ValidationError (''Invalid sender type. Must be '' @ [CHR 0x22] @ ''user''
              @ [CHR 0x22] @ '' or '' @ [CHR 0x22] @ ''ai'' @ [CHR 0x22]))
      else
        io_bind (getClient down) (\<lambda>_.
        io_bind (chatroom_findFirst down (\<lambda>c. c_id c = cid \<and> c_userId c = uid)) (\<lambda>room.
          case room of
            None \<Rightarrow> io_throw (NotFoundError ''Chatroom not found'')
          | Some _ \<Rightarrow>
              io_bind (if cm_sender d = ''user''
                       then io_bind (canSendMessage cfg down uid) (\<lambda>r.
                              if \<not> canSend r
                              then io_throw (ValidationError
                                     (''Cannot send message: '' @ or_default (reason r) ''undefined''))
                              else io_return ())
                       else io_return ()) (\<lambda>_.
              io_bind (message_create down cid (trim (cm_content d)) (cm_sender d)
                         (or_default (cm_messageType d) ''text'')) (\<lambda>m.
              io_bind (\<lambda>w. chatroom_update down cid (\<lambda>c. c\<lparr>c_updatedAt := w_now w\<rparr>) w) (\<lambda>_.
              io_bind (if cm_sender d = ''user'' then trackMessageUsage down uid
                       else io_return ()) (\<lambda>_.
              io_bind (invalidateMessageCache cid uid) (\<lambda>_.
              io_return m))))))))"

section \<open>QueueService.enqueueGeminiMessage (services/queue.service.ts)\<close>

text \<open>\<^verbatim>\<open>QueueConfig.JOB_PRIORITIES.HIGH\<close>.\<close>

definition JOB_PRIORITY_HIGH :: nat where
  "JOB_PRIORITY_HIGH = 1"

definition enqueueGeminiMessage :: "store_op list \<Rightarrow> GeminiMessageJob \<Rightarrow> queued_job io" where
  "enqueueGeminiMessage down d w =
     (case w_geminiQueue w of
        None \<Rightarrow> (Inl (Error ''Gemini processing queue not found''), w)
      | Some q \<Rightarrow>
          io_bind (available down QueueAdd) (\<lambda>_ w'.
            let job = \<lparr>q_id = w_nextJobId w', q_data = d, q_priority = JOB_PRIORITY_HIGH,
                       q_delay = 0\<rparr>
            in (Inr job, w'\<lparr>w_geminiQueue := Some (q @ [job]),
                            w_nextJobId := Suc (w_nextJobId w')\<rparr>)) w)"

section \<open>MessageController.sendMessage and QueueController.enqueueTestMessage\<close>

record send_request =
  sr_user :: "string option"
  sr_chatroomId :: string
  sr_content :: js_string
  sr_messageType :: "string option"
  sr_processWithGemini :: bool
  sr_clientId :: "string option"
  sr_sessionId :: "string option"

record response =
  rs_code :: nat
  rs_status :: string
  rs_message :: string
  rs_data_message :: "message option"
  rs_data_geminiJob :: "nat option"
  rs_data_warning :: "string option"

text \<open>An exception that escapes the handler goes to \<^verbatim>\<open>asyncHandler\<close>'s \<^verbatim>\<open>next\<close>; it
  is the \<open>Inl\<close> result here.\<close>

definition sendMessage :: "config \<Rightarrow> store_op list \<Rightarrow> send_request \<Rightarrow> response io" where
  "sendMessage cfg down req =
     (case sr_user req of
        None \<Rightarrow> io_return \<lparr>rs_code = 401, rs_status = ''error'',
                   rs_message = ''Authentication required'', rs_data_message = None,
                   rs_data_geminiJob = None, rs_data_warning = None\<rparr>
      | Some uid \<Rightarrow>
          if sr_chatroomId req = []
          then io_return \<lparr>rs_code = 400, rs_status = ''error'',
                 rs_message = ''Chatroom ID is required'', rs_data_message = None,
                 rs_data_geminiJob = None, rs_data_warning = None\<rparr>
          else
            io_bind (createMessage cfg down (sr_chatroomId req) uid
                       \<lparr>cm_content = sr_content req, cm_sender = ''user'',
                        cm_messageType = Some (or_default (sr_messageType req) ''text'')\<rparr>) (\<lambda>m.
            if sr_processWithGemini req
            then
              io_catch
                (io_bind (\<lambda>w. enqueueGeminiMessage down
                            \<lparr>j_messageId = m_id m, j_chatRoomId = sr_chatroomId req,
                             j_userId = uid, j_userMessage = sr_content req,
                             j_context = Some \<lparr>cx_messageType =
                                                 Some (or_default (sr_messageType req) ''text''),
                                               cx_chatRoomId = None, cx_userId = None\<rparr>,
                             j_metadata = Some \<lparr>md_timestamp = w_now w,
                                                md_clientId = sr_clientId req,
                                                md_sessionId = sr_sessionId req\<rparr>\<rparr> w) (\<lambda>job.
                 io_return \<lparr>rs_code = 201, rs_status = ''success'',
                   rs_message = ''Message sent successfully and queued for AI processing'',
                   rs_data_message = Some m, rs_data_geminiJob = Some (q_id job),
                   rs_data_warning = None\<rparr>))
                (\<lambda>queueError.
                 io_return \<lparr>rs_code = 201, rs_status = ''success'',
                   rs_message = ''Message sent successfully, but AI processing failed to queue'',
                   rs_data_message = Some m, rs_data_geminiJob = None,
                   rs_data_warning = Some ''AI processing unavailable''\<rparr>)
            else
              io_return \<lparr>rs_code = 201, rs_status = ''success'',
                rs_message = ''Message sent successfully'', rs_data_message = Some m,
                rs_data_geminiJob = None, rs_data_warning = None\<rparr>))"

record test_request =
  tr_user :: "string option"
  tr_chatRoomId :: "string option"
  tr_userMessage :: "js_string option"
  tr_context :: "job_context option"

text \<open>
  \<^verbatim>\<open>enqueueTestMessage\<close> answers with a body of a different shape (\<^verbatim>\<open>success\<close>,
  \<^verbatim>\<open>error\<close>); its \<^verbatim>\<open>success\<close> flag is shown in \<open>rs_status\<close> and its text in \<open>rs_message\<close>.
  Its message id is \<^verbatim>\<open>`test-${Date.now()}`\<close>: the text \<open>test-\<close> followed by the clock's
  decimal digits.
\<close>

fun digits :: "nat \<Rightarrow> nat \<Rightarrow> string" where
  "digits 0 n = []"
| "digits (Suc fuel) n =
     (if n < 10 then [char_of (48 + n)] else digits fuel (n div 10) @ [char_of (48 + n mod 10)])"

definition testMessageId :: "nat \<Rightarrow> string" where
  "testMessageId t = ''test-'' @ digits (Suc t) t"

definition enqueueTestMessage :: "store_op list \<Rightarrow> test_request \<Rightarrow> response io" where
  "enqueueTestMessage down req =
     io_catch
       (case tr_user req of
          None \<Rightarrow> io_return \<lparr>rs_code = 401, rs_status = ''error'',
                     rs_message = ''Authentication required'', rs_data_message = None,
                     rs_data_geminiJob = None, rs_data_warning = None\<rparr>
        | Some uid \<Rightarrow>
            if uid = []
            then io_return \<lparr>rs_code = 401, rs_status = ''error'',
                   rs_message = ''Authentication required'', rs_data_message = None,
                   rs_data_geminiJob = None, rs_data_warning = None\<rparr>
            else
              (case (tr_chatRoomId req, tr_userMessage req) of
                 (Some cid, Some text) \<Rightarrow>
                   if cid = [] \<or> text = []
                   then io_return \<lparr>rs_code = 400, rs_status = ''error'',
                          rs_message = ''chatRoomId and userMessage are required'',
                          rs_data_message = None, rs_data_geminiJob = None,
                          rs_data_warning = None\<rparr>
                   else
                     io_bind (\<lambda>w. enqueueGeminiMessage down
                                \<lparr>j_messageId = testMessageId (w_now w), j_chatRoomId = cid,
                                 j_userId = uid, j_userMessage = text,
                                 j_context = tr_context req,
                                 j_metadata = Some \<lparr>md_timestamp = w_now w,
                                                    md_clientId = Some ''test-client'',
                                                    md_sessionId = None\<rparr>\<rparr> w) (\<lambda>job.
                     io_return \<lparr>rs_code = 200, rs_status = ''success'',
                       rs_message = ''Test message enqueued successfully'',
                       rs_data_message = None, rs_data_geminiJob = Some (q_id job),
                       rs_data_warning = None\<rparr>)
               | _ \<Rightarrow> io_return \<lparr>rs_code = 400, rs_status = ''error'',
                          rs_message = ''chatRoomId and userMessage are required'',
                          rs_data_message = None, rs_data_geminiJob = None,
                          rs_data_warning = None\<rparr>))
       (\<lambda>e. io_return \<lparr>rs_code = 500, rs_status = ''error'',
                rs_message = ''Failed to enqueue test message'', rs_data_message = None,
                rs_data_geminiJob = None, rs_data_warning = None\<rparr>)"

section \<open>ChatroomController.sendMessageToChatroom\<close>

text \<open>
  The second routed handler that stores a user message and enqueues its job
  (\<^verbatim>\<open>POST /chatroom/:id/send-message\<close>). It checks the content itself, hands the trimmed
  content to \<open>createMessage\<close>, always enqueues, and puts the chatroom and the user into the
  job's context. The write and the enqueue stand in one \<^verbatim>\<open>try\<close>, whose \<^verbatim>\<open>catch\<close> answers
  500 for every error. \<^verbatim>\<open>messageType = 'text'\<close> in the destructuring replaces an absent
  value only. (\<open>sr_processWithGemini\<close> is not read by this handler.)
\<close>

definition body_messageType :: "send_request \<Rightarrow> string" where
  "body_messageType req = (case sr_messageType req of None \<Rightarrow> ''text'' | Some s \<Rightarrow> s)"

definition sendMessageToChatroom :: "config \<Rightarrow> store_op list \<Rightarrow> send_request \<Rightarrow> response io" where
  "sendMessageToChatroom cfg down req =
     (case sr_user req of
        None \<Rightarrow> io_return \<lparr>rs_code = 401, rs_status = ''error'',
                   rs_message = ''Authentication required'', rs_data_message = None,
                   rs_data_geminiJob = None, rs_data_warning = None\<rparr>
      | Some uid \<Rightarrow>
          if sr_chatroomId req = []
          then io_return \<lparr>rs_code = 400, rs_status = ''error'',
                 rs_message = ''Chatroom ID is required'', rs_data_message = None,
                 rs_data_geminiJob = None, rs_data_warning = None\<rparr>
          else if sr_content req = [] \<or> length (trim (sr_content req)) = 0
          then io_return \<lparr>rs_code = 400, rs_status = ''error'',
                 rs_message = ''Message content is required'', rs_data_message = None,
                 rs_data_geminiJob = None, rs_data_warning = None\<rparr>
          else
            io_catch
              (io_bind (createMessage cfg down (sr_chatroomId req) uid
                          \<lparr>cm_content = trim (sr_content req), cm_sender = ''user'',
                           cm_messageType = Some (body_messageType req)\<rparr>) (\<lambda>m.
               io_bind (\<lambda>w. enqueueGeminiMessage down
                           \<lparr>j_messageId = m_id m, j_chatRoomId = sr_chatroomId req,
                            j_userId = uid, j_userMessage = trim (sr_content req),
                            j_context = Some \<lparr>cx_messageType = Some (body_messageType req),
                                              cx_chatRoomId = Some (sr_chatroomId req),
                                              cx_userId = Some uid\<rparr>,
                            j_metadata = Some \<lparr>md_timestamp = w_now w,
                                               md_clientId = sr_clientId req,
                                               md_sessionId = sr_sessionId req\<rparr>\<rparr> w) (\<lambda>job.
               io_return \<lparr>rs_code = 201, rs_status = ''success'',
                 rs_message = ''Message sent successfully and queued for AI processing'',
                 rs_data_message = Some m, rs_data_geminiJob = Some (q_id job),
                 rs_data_warning = None\<rparr>)))
              (\<lambda>e. io_return \<lparr>rs_code = 500, rs_status = ''error'',
                       rs_message = ''Failed to send message'', rs_data_message = None,
                       rs_data_geminiJob = None, rs_data_warning = None\<rparr>))"

section \<open>GeminiService (services/gemini.service.ts)\<close>

text \<open>
  The external generation service is a parameter: a function from the request to the
  text it returns or to the failure it raises. The kinds of failure are those the
  specification names; \<open>uf_message\<close> is the thrown error's message, \<open>None\<close> when the
  thrown value is not an \<^verbatim>\<open>Error\<close>.
\<close>

datatype failure_kind =
  NetworkFailure | Timeout | ServerError | SafetyRejection | MalformedRequest | RateLimited

record upstream_failure =
  uf_kind :: failure_kind
  uf_message :: "string option"

type_synonym generation_service = "gen_request \<Rightarrow> upstream_failure + js_string"

record GeminiResponse =
  gr_content :: js_string
  gr_promptTokens :: nat
  gr_responseTokens :: nat
  gr_totalTokens :: nat
  gr_model :: string
  gr_finishReason :: string

definition formatHistoryForGemini :: "GeminiMessage list \<Rightarrow> GeminiMessage list" where
  "formatHistoryForGemini history = map (\<lambda>m. \<lparr>g_role = g_role m, g_parts = g_parts m\<rparr>) history"

definition newline :: string where
  "newline = [CHR 0x0A]"

definition basePrompt :: string where
  "basePrompt =
     ''You are a helpful AI assistant in a chatroom. '' @ newline @
     ''    '' @ newline @
     ''Guidelines:'' @ newline @
     ''- Be conversational and engaging'' @ newline @
     ''- Provide accurate and helpful information'' @ newline @
     ''- If you'' @ [CHR 0x27] @ ''re not sure about something, say so'' @ newline @
     ''- Keep responses concise but informative'' @ newline @
     ''- Use markdown formatting when appropriate'' @ newline @
     ''- Be respectful and professional'' @ newline @
     newline @
     ''Context: This is a chatroom conversation.''"

definition generateSystemPrompt :: "string option \<Rightarrow> js_string" where
  "generateSystemPrompt chatRoomId =
     (case chatRoomId of
        None \<Rightarrow> js basePrompt
      | Some cid \<Rightarrow>
          if cid = [] then js basePrompt
          else js (basePrompt @ newline @ newline @ ''Chatroom ID: '' @ cid))"

definition generateResponse ::
  "generation_service \<Rightarrow> js_string \<Rightarrow> GeminiContext \<Rightarrow> GeminiResponse io" where
  "generateResponse service userMessage ctx w =
     (let prompt = (case gc_systemPrompt ctx of
                      None \<Rightarrow> userMessage
                    | Some sp \<Rightarrow> if sp = [] then userMessage
                                else sp @ js (newline @ newline @ ''User: '') @ userMessage);
          request = \<lparr>rq_history = formatHistoryForGemini (gc_conversationHistory ctx),
                     rq_maxOutputTokens =
                       (case gc_maxTokens ctx of None \<Rightarrow> 2048
                        | Some n \<Rightarrow> if n = 0 then 2048 else n),
                     rq_prompt = prompt\<rparr>;
          w' = w\<lparr>w_genRequests := w_genRequests w @ [request]\<rparr>
      in case service request of
           Inr text \<Rightarrow>
             (Inr \<lparr>gr_content = text, gr_promptTokens = 0, gr_responseTokens = 0,
                   gr_totalTokens = 0, gr_model = ''gemini-1.5-flash'',
                   gr_finishReason = ''STOP''\<rparr>, w')
         | Inl failure \<Rightarrow>
             (Inl (Error (''Failed to generate Gemini response: ''
                          @ (case uf_message failure of None \<Rightarrow> ''Unknown error''
                             | Some msg \<Rightarrow> msg))), w'))"

section \<open>GeminiWorker (workers/gemini.worker.ts)\<close>

definition getConversationHistory :: "store_op list \<Rightarrow> string option \<Rightarrow> GeminiMessage list io" where
  "getConversationHistory down chatRoomId =
     (case chatRoomId of
        None \<Rightarrow> io_return []
      | Some cid \<Rightarrow>
          if cid = [] then io_return []
          else
            io_catch
              (io_bind (getClient down) (\<lambda>_.
               io_bind (message_findMany_asc down cid 10) (\<lambda>messages.
               io_return
                 (map (\<lambda>m. \<lparr>g_role = (if m_sender m = ''user'' then RoleUser else RoleModel),
                             g_parts = [m_content m]\<rparr>) messages))))
              (\<lambda>e. io_return []))"

text \<open>\<^verbatim>\<open>context?.chatRoomId\<close> and \<^verbatim>\<open>context?.userId\<close>.\<close>

definition context_chatRoomId :: "job_context option \<Rightarrow> string option" where
  "context_chatRoomId context = (case context of None \<Rightarrow> None | Some c \<Rightarrow> cx_chatRoomId c)"

definition context_userId :: "job_context option \<Rightarrow> string option" where
  "context_userId context = (case context of None \<Rightarrow> None | Some c \<Rightarrow> cx_userId c)"

definition callGeminiAPI ::
  "generation_service \<Rightarrow> store_op list \<Rightarrow> js_string \<Rightarrow> job_context option
     \<Rightarrow> GeminiResponse io" where
  "callGeminiAPI service down userMessage context =
     io_catch
       (io_bind (getConversationHistory down (context_chatRoomId context)) (\<lambda>conversationHistory.
        generateResponse service userMessage
          \<lparr>gc_chatRoomId = or_default (context_chatRoomId context) ''unknown'',
           gc_userId = or_default (context_userId context) ''unknown'',
           gc_conversationHistory = conversationHistory,
           gc_systemPrompt = Some (generateSystemPrompt (context_chatRoomId context)),
           gc_maxTokens = Some 2048\<rparr>))
       (\<lambda>e. io_throw (Error ''Failed to call Gemini API''))"

text \<open>The processed response: the content, the counts and the formatting flags (the
  usage figures and timestamps that are copied along are left out).\<close>

record processed_response =
  pr_content :: js_string
  pr_wordCount :: nat
  pr_characterCount :: nat
  pr_context :: "job_context option"
  pr_hasCodeBlocks :: bool
  pr_hasLinks :: bool
  pr_hasList :: bool

definition processGeminiResponse ::
  "GeminiResponse \<Rightarrow> job_context option \<Rightarrow> processed_response io" where
  "processGeminiResponse response context =
     io_return
       \<lparr>pr_content = gr_content response,
        pr_wordCount = split_space_count (gr_content response),
        pr_characterCount = length (gr_content response),
        pr_context = context,
        pr_hasCodeBlocks = js_includes (gr_content response) (js ''```''),
        pr_hasLinks = js_includes (gr_content response) (js ''http''),
        pr_hasList = (js_includes (gr_content response) (js ''- '')
                      \<or> js_includes (gr_content response) (js ''* ''))\<rparr>"

text \<open>What \<^verbatim>\<open>saveGeminiResponse\<close> returns: the stored row, or the mock object of its
  \<^verbatim>\<open>catch\<close> branch; both have these four fields.\<close>

record saved_message =
  sv_id :: string
  sv_content :: js_string
  sv_sender :: string
  sv_messageType :: string

definition saveGeminiResponse ::
  "store_op list \<Rightarrow> string \<Rightarrow> string \<Rightarrow> string \<Rightarrow> processed_response \<Rightarrow> saved_message io" where
  "saveGeminiResponse down originalMessageId chatRoomId userId geminiResponse =
     io_catch
       (io_bind (getClient down) (\<lambda>_.
        io_bind (chatroom_findFirst down (\<lambda>c. c_id c = chatRoomId)) (\<lambda>room.
          case room of
            None \<Rightarrow> io_throw (Error ''Chatroom not found for AI response'')
          | Some _ \<Rightarrow>
              io_bind (message_create down chatRoomId (pr_content geminiResponse) ''ai'' ''text'')
                (\<lambda>savedMessage.
              io_bind (\<lambda>w. chatroom_update down chatRoomId (\<lambda>c. c\<lparr>c_updatedAt := w_now w\<rparr>) w)
                (\<lambda>_.
              io_bind (invalidateMessageCache chatRoomId userId) (\<lambda>_.
              io_return \<lparr>sv_id = m_id savedMessage, sv_content = m_content savedMessage,
                         sv_sender = m_sender savedMessage,
                         sv_messageType = m_messageType savedMessage\<rparr>))))))
       (\<lambda>e. io_return \<lparr>sv_id = ''failed-save'', sv_content = js ''Failed to save AI response'',
                        sv_sender = ''ai'', sv_messageType = ''text''\<rparr>)"

record job_result =
  jr_messageId :: string
  jr_chatRoomId :: string
  jr_userId :: string
  jr_geminiResponse :: processed_response
  jr_savedMessageId :: string

text \<open>\<^verbatim>\<open>job.updateProgress\<close> writes to Redis and can fail like any other call.\<close>

definition updateProgress :: "store_op list \<Rightarrow> nat \<Rightarrow> unit io" where
  "updateProgress down percent = available down (UpdateProgress percent)"

text \<open>The \<^verbatim>\<open>catch\<close> of \<^verbatim>\<open>processGeminiJob\<close> logs and rethrows the same error.\<close>

definition processGeminiJob ::
  "generation_service \<Rightarrow> store_op list \<Rightarrow> GeminiMessageJob \<Rightarrow> job_result io" where
  "processGeminiJob service down job =
     io_catch
       (io_bind (updateProgress down 10) (\<lambda>_.
        io_bind (callGeminiAPI service down (j_userMessage job) (j_context job)) (\<lambda>geminiResponse.
        io_bind (updateProgress down 60) (\<lambda>_.
        io_bind (processGeminiResponse geminiResponse (j_context job)) (\<lambda>processedResponse.
        io_bind (updateProgress down 80) (\<lambda>_.
        io_bind (saveGeminiResponse down (j_messageId job) (j_chatRoomId job) (j_userId job)
                   processedResponse) (\<lambda>savedMessage.
        io_bind (updateProgress down 100) (\<lambda>_.
        io_return \<lparr>jr_messageId = j_messageId job, jr_chatRoomId = j_chatRoomId job,
                   jr_userId = j_userId job, jr_geminiResponse = processedResponse,
                   jr_savedMessageId = sv_id savedMessage\<rparr>))))))))
       (\<lambda>e. io_throw e)"

section \<open>The queue's retry policy (config/queue.config.ts)\<close>

record job_options =
  jo_removeOnComplete :: nat
  jo_removeOnFail :: nat
  jo_attempts :: nat
  jo_backoffType :: string
  jo_backoffDelay :: nat

definition getDefaultQueueOptions :: job_options where
  "getDefaultQueueOptions =
     \<lparr>jo_removeOnComplete = 100, jo_removeOnFail = 50, jo_attempts = 3,
      jo_backoffType = ''exponential'', jo_backoffDelay = 2000\<rparr>"

text \<open>
  The queue library (BullMQ) runs the worker's processor on a job; when the processor
  throws, whatever the error, and fewer than \<open>attempts\<close> attempts have been made, the job
  is delayed (exponential backoff: the base delay doubled for each attempt made) and run
  again; otherwise it is moved to the failed set. The processor of this repository
  throws plain \<^verbatim>\<open>Error\<close> objects only, never the library's \<^verbatim>\<open>UnrecoverableError\<close>.
  Each attempt has its own environment: the service's answer and the calls that are down.
\<close>

record attempt_env =
  ae_service :: generation_service
  ae_down :: "store_op list"

datatype job_state = Completed job_result | Failed error

record delivery =
  dl_state :: job_state
  dl_attemptsMade :: nat

fun run_attempts ::
  "nat \<Rightarrow> nat \<Rightarrow> nat \<Rightarrow> (nat \<Rightarrow> attempt_env) \<Rightarrow> GeminiMessageJob \<Rightarrow> world
     \<Rightarrow> delivery \<times> world" where
  "run_attempts 0 made delay env job w =
     (case processGeminiJob (ae_service (env made)) (ae_down (env made)) job w of
        (Inr r, w') \<Rightarrow> (\<lparr>dl_state = Completed r, dl_attemptsMade = Suc made\<rparr>, w')
      | (Inl e, w') \<Rightarrow> (\<lparr>dl_state = Failed e, dl_attemptsMade = Suc made\<rparr>, w'))"
| "run_attempts (Suc retries) made delay env job w =
     (case processGeminiJob (ae_service (env made)) (ae_down (env made)) job w of
        (Inr r, w') \<Rightarrow> (\<lparr>dl_state = Completed r, dl_attemptsMade = Suc made\<rparr>, w')
      | (Inl e, w') \<Rightarrow>
          run_attempts retries (Suc made) delay env job
            (w'\<lparr>w_now := w_now w' + delay * 2 ^ made\<rparr>))"

definition deliver ::
  "job_options \<Rightarrow> (nat \<Rightarrow> attempt_env) \<Rightarrow> GeminiMessageJob \<Rightarrow> world \<Rightarrow> delivery \<times> world" where
  "deliver opts env job w = run_attempts (jo_attempts opts - 1) 0 (jo_backoffDelay opts) env job w"

text \<open>The failure classes of the specification's Generation Gateway.\<close>

datatype failure_class = Transient | PermanentlyRejected | QuotaExceeded

fun classify :: "failure_kind \<Rightarrow> failure_class" where
  "classify NetworkFailure = Transient"
| "classify Timeout = Transient"
| "classify ServerError = Transient"
| "classify SafetyRejection = PermanentlyRejected"
| "classify MalformedRequest = PermanentlyRejected"
| "classify RateLimited = QuotaExceeded"

section \<open>Overlapping calls of trackMessageUsage\<close>

text \<open>
  Node runs one handler at a time and switches between handlers at an \<^verbatim>\<open>await\<close>. A call
  of \<^verbatim>\<open>trackMessageUsage\<close> is therefore three indivisible steps, one per awaited store
  call, and another call's steps may run between them. \<open>track_pc\<close> is where a call
  stands, with the local variables it holds there.
\<close>

datatype track_pc =
  T_Start
  | T_Read "dailyUsage option" nat
  | T_Written dailyUsage
  | T_Done
  | T_Threw error

definition track_step :: "store_op list \<Rightarrow> string \<Rightarrow> track_pc \<Rightarrow> world \<Rightarrow> track_pc \<times> world" where
  "track_step down uid pc w =
     (case pc of
        T_Start \<Rightarrow>
          (case io_bind (getClient down)
                  (\<lambda>_. dailyUsage_findUnique down uid (startOfDay (w_now w))) w of
             (Inl e, w') \<Rightarrow> (T_Threw e, w')
           | (Inr found, w') \<Rightarrow> (T_Read found (startOfDay (w_now w)), w'))
      | T_Read found today \<Rightarrow>
          (case (case found of
                   None \<Rightarrow> dailyUsage_create down uid today 1
                 | Some usage \<Rightarrow>
                     dailyUsage_update down (d_id usage) (d_messageCount usage + 1)) w of
             (Inl e, w') \<Rightarrow> (T_Threw e, w')
           | (Inr usage, w') \<Rightarrow> (T_Written usage, w'))
      | T_Written usage \<Rightarrow>
          (case user_update down uid
                  (\<lambda>u. u\<lparr>u_dailyMessageCount := d_messageCount usage,
                          u_lastMessageDate := Some (w_now w)\<rparr>) w of
             (Inl e, w') \<Rightarrow> (T_Threw e, w')
           | (Inr _, w') \<Rightarrow> (T_Done, w'))
      | T_Done \<Rightarrow> (T_Done, w)
      | T_Threw e \<Rightarrow> (T_Threw e, w))"

text \<open>A schedule names, step by step, the caller that runs next.\<close>

fun run_schedule ::
  "store_op list \<Rightarrow> string \<Rightarrow> nat list \<Rightarrow> track_pc list \<Rightarrow> world \<Rightarrow> track_pc list \<times> world" where
  "run_schedule down uid [] pcs w = (pcs, w)"
| "run_schedule down uid (i # sched) pcs w =
     (if i < length pcs
      then (case track_step down uid (pcs ! i) w of
              (pc', w') \<Rightarrow> run_schedule down uid sched (pcs[i := pc']) w')
      else run_schedule down uid sched pcs w)"

text \<open>Calls made one after the other, each finished before the next starts.\<close>

fun sequentially :: "nat \<Rightarrow> unit io \<Rightarrow> world \<Rightarrow> world" where
  "sequentially 0 call w = w"
| "sequentially (Suc n) call w = sequentially n call (snd (call w))"

definition usageCount :: "string \<Rightarrow> nat \<Rightarrow> world \<Rightarrow> int" where
  "usageCount uid day w =
     (case find (\<lambda>d. d_userId d = uid \<and> d_date d = day) (w_dailyUsages w) of
        None \<Rightarrow> 0
      | Some d \<Rightarrow> d_messageCount d)"

section \<open>Auxiliary notions for the proofs\<close>

text \<open>A step that leaves one component of the world as it was, whatever it returns.\<close>

definition keeps :: "(world \<Rightarrow> 'b) \<Rightarrow> 'a io \<Rightarrow> bool" where
  "keeps f m \<longleftrightarrow> (\<forall>w. f (snd (m w)) = f w)"

text \<open>The request \<open>callGeminiAPI\<close> sends for a given history, user text and job context.\<close>

definition built_request :: "GeminiMessage list \<Rightarrow> js_string \<Rightarrow> job_context option \<Rightarrow> gen_request" where
  "built_request h text ctx =
     \<lparr>rq_history = h, rq_maxOutputTokens = 2048,
      rq_prompt = (if generateSystemPrompt (context_chatRoomId ctx) = [] then text
                   else generateSystemPrompt (context_chatRoomId ctx)
                        @ js (newline @ newline @ ''User: '') @ text)\<rparr>"

section \<open>Example inputs\<close>

text \<open>A store with one active basic-tier user who owns one chatroom, and an initialised,
  empty queue.\<close>

definition w0 :: world where
  "w0 = \<lparr>w_messages = [],
          w_chatrooms = [\<lparr>c_id = ''room1'', c_userId = ''u1'', c_updatedAt = 0\<rparr>],
          w_users = [\<lparr>u_id = ''u1'', u_subscriptionTier = ''basic'',
                      u_subscriptionStatus = ''active'', u_dailyMessageCount = 0,
                      u_lastMessageDate = None\<rparr>],
          w_dailyUsages = [], w_geminiQueue = Some [], w_genRequests = [],
          w_cacheInvalidations = [], w_now = 1000, w_nextId = 0,
          w_cuid = (\<lambda>n. CHR ''c'' # replicate n CHR ''x''), w_nextJobId = 1\<rparr>"

definition long_text :: js_string where
  "long_text = replicate 4001 0x61"

definition long_reply :: processed_response where
  "long_reply = \<lparr>pr_content = 0x20 # long_text, pr_wordCount = 2, pr_characterCount = 4002,
     pr_context = None, pr_hasCodeBlocks = False, pr_hasLinks = False, pr_hasList = False\<rparr>"

text \<open>The user sends \<open>" hi "\<close> to the chatroom and asks for an AI reply.\<close>

definition hi_data :: CreateMessageData where
  "hi_data = \<lparr>cm_content = js '' hi '', cm_sender = ''user'', cm_messageType = Some ''text''\<rparr>"

definition hi_message :: message where
  "hi_message = \<lparr>m_id = ''c'', m_chatroomId = ''room1'', m_content = js ''hi'',
                  m_sender = ''user'', m_messageType = ''text'', m_createdAt = 1000\<rparr>"

definition w_hi :: world where
  "w_hi = w0\<lparr>w_messages := [hi_message],
             w_chatrooms := [\<lparr>c_id = ''room1'', c_userId = ''u1'', c_updatedAt = 1000\<rparr>],
             w_users := [\<lparr>u_id = ''u1'', u_subscriptionTier = ''basic'',
                          u_subscriptionStatus = ''active'', u_dailyMessageCount = 1,
                          u_lastMessageDate = Some 1000\<rparr>],
             w_dailyUsages := [\<lparr>d_id = ''cx'', d_userId = ''u1'', d_date = 0,
                                d_messageCount = 1\<rparr>],
             w_cacheInvalidations := [(''room1'', ''u1'')],
             w_nextId := 2\<rparr>"

definition hi_req :: send_request where
  "hi_req = \<lparr>sr_user = Some ''u1'', sr_chatroomId = ''room1'', sr_content = js '' hi '',
              sr_messageType = None, sr_processWithGemini = True, sr_clientId = None,
              sr_sessionId = None\<rparr>"

definition hi_job :: GeminiMessageJob where
  "hi_job = \<lparr>j_messageId = ''c'', j_chatRoomId = ''room1'', j_userId = ''u1'',
              j_userMessage = js '' hi '',
              j_context = Some \<lparr>cx_messageType = Some ''text'', cx_chatRoomId = None,
                                cx_userId = None\<rparr>,
              j_metadata = Some \<lparr>md_timestamp = 1000, md_clientId = None,
                                 md_sessionId = None\<rparr>\<rparr>"

definition hi_queued :: queued_job where
  "hi_queued = \<lparr>q_id = 1, q_data = hi_job, q_priority = 1, q_delay = 0\<rparr>"

definition hi_response :: response where
  "hi_response = \<lparr>rs_code = 201, rs_status = ''success'',
                   rs_message = ''Message sent successfully and queued for AI processing'',
                   rs_data_message = Some hi_message, rs_data_geminiJob = Some 1,
                   rs_data_warning = None\<rparr>"

text \<open>The same user with five messages counted today: the basic tier's limit.\<close>

definition u_limit :: user where
  "u_limit = \<lparr>u_id = ''u1'', u_subscriptionTier = ''basic'', u_subscriptionStatus = ''active'',
               u_dailyMessageCount = 5, u_lastMessageDate = Some 900\<rparr>"

definition w_limit :: world where
  "w_limit = w0\<lparr>w_users := [u_limit]\<rparr>"

definition test_req :: test_request where
  "test_req = \<lparr>tr_user = Some ''u1'', tr_chatRoomId = Some ''room1'',
                tr_userMessage = Some (js ''hello''), tr_context = None\<rparr>"

definition test_job :: GeminiMessageJob where
  "test_job = \<lparr>j_messageId = testMessageId 1000, j_chatRoomId = ''room1'', j_userId = ''u1'',
                j_userMessage = js ''hello'', j_context = None,
                j_metadata = Some \<lparr>md_timestamp = 1000, md_clientId = Some ''test-client'',
                                   md_sessionId = None\<rparr>\<rparr>"

definition test_queued :: queued_job where
  "test_queued = \<lparr>q_id = 1, q_data = test_job, q_priority = 1, q_delay = 0\<rparr>"

definition service_ok :: generation_service where
  "service_ok = (\<lambda>request. Inr (js ''Hello!''))"

text \<open>A chatroom with twelve stored messages, numbered by creation time 1 to 12, the odd
  ones from the user and the even ones from the assistant; message \<open>n\<close> has the single
  code unit \<open>n\<close> as its content.\<close>

definition msg_n :: "nat \<Rightarrow> message" where
  "msg_n n = \<lparr>m_id = CHR ''m'' # replicate n CHR ''x'', m_chatroomId = ''room1'',
              m_content = [of_nat n], m_sender = (if odd n then ''user'' else ''ai''),
              m_messageType = ''text'', m_createdAt = n\<rparr>"

definition w12 :: world where
  "w12 = w0\<lparr>w_messages := map msg_n [1, 2, 3, 4, 5, 6, 7, 8, 9, 10, 11, 12]\<rparr>"

definition turn_n :: "nat \<Rightarrow> GeminiMessage" where
  "turn_n n = \<lparr>g_role = (if odd n then RoleUser else RoleModel), g_parts = [ [of_nat n] ]\<rparr>"

text \<open>A job whose context names the chatroom, as \<^verbatim>\<open>sendMessageToChatroom\<close> builds it.\<close>

definition room_job :: GeminiMessageJob where
  "room_job = \<lparr>j_messageId = ''m13'', j_chatRoomId = ''room1'', j_userId = ''u1'',
                j_userMessage = js ''hello'',
                j_context = Some \<lparr>cx_messageType = Some ''text'', cx_chatRoomId = Some ''room1'',
                                  cx_userId = Some ''u1''\<rparr>,
                j_metadata = None\<rparr>"

definition hello_processed :: "job_context option \<Rightarrow> processed_response" where
  "hello_processed ctx =
     \<lparr>pr_content = js ''Hello!'', pr_wordCount = 1, pr_characterCount = 6, pr_context = ctx,
      pr_hasCodeBlocks = False, pr_hasLinks = False, pr_hasList = False\<rparr>"

text \<open>The user with four messages counted today, one below the basic tier's limit, and the
  world after that user's fifth message \<open>" hi "\<close> has been sent with an AI reply asked for.\<close>

definition w4 :: world where
  "w4 = w0\<lparr>w_users := [\<lparr>u_id = ''u1'', u_subscriptionTier = ''basic'',
                          u_subscriptionStatus = ''active'', u_dailyMessageCount = 4,
                          u_lastMessageDate = Some 900\<rparr>],
           w_dailyUsages := [\<lparr>d_id = ''d1'', d_userId = ''u1'', d_date = 0,
                              d_messageCount = 4\<rparr>]\<rparr>"

definition w5 :: world where
  "w5 = w0\<lparr>w_messages := [hi_message],
           w_chatrooms := [\<lparr>c_id = ''room1'', c_userId = ''u1'', c_updatedAt = 1000\<rparr>],
           w_users := [\<lparr>u_id = ''u1'', u_subscriptionTier = ''basic'',
                          u_subscriptionStatus = ''active'', u_dailyMessageCount = 5,
                          u_lastMessageDate = Some 1000\<rparr>],
           w_dailyUsages := [\<lparr>d_id = ''d1'', d_userId = ''u1'', d_date = 0,
                              d_messageCount = 5\<rparr>],
           w_geminiQueue := Some [hi_queued],
           w_cacheInvalidations := [(''room1'', ''u1'')],
           w_nextId := 1,
           w_nextJobId := 2\<rparr>"

definition hello_response :: GeminiResponse where
  "hello_response = \<lparr>gr_content = js ''Hello!'', gr_promptTokens = 0, gr_responseTokens = 0,
                      gr_totalTokens = 0, gr_model = ''gemini-1.5-flash'',
                      gr_finishReason = ''STOP''\<rparr>"

text \<open>A service that refuses every request as unsafe, and a job's three attempts of which
  the first meets that refusal and the later ones the answering service.\<close>

definition service_rejects :: generation_service where
  "service_rejects = (\<lambda>request. Inl \<lparr>uf_kind = SafetyRejection,
                                         uf_message = Some ''Response was blocked due to SAFETY''\<rparr>)"

definition env_rejected_once :: "nat \<Rightarrow> attempt_env" where
  "env_rejected_once n = (if n = 0 then \<lparr>ae_service = service_rejects, ae_down = []\<rparr>
                          else \<lparr>ae_service = service_ok, ae_down = []\<rparr>)"

definition env_always_rejected :: "nat \<Rightarrow> attempt_env" where
  "env_always_rejected n = \<lparr>ae_service = service_rejects, ae_down = []\<rparr>"

text \<open>Three attempts of which the first cannot write its last progress update.\<close>

definition env_late_failure :: "nat \<Rightarrow> attempt_env" where
  "env_late_failure n = (if n = 0 then \<lparr>ae_service = service_ok, ae_down = [UpdateProgress 100]\<rparr>
                         else \<lparr>ae_service = service_ok, ae_down = []\<rparr>)"

definition is_completed :: "job_state \<Rightarrow> bool" where
  "is_completed s = (case s of Completed r \<Rightarrow> True | Failed e \<Rightarrow> False)"

section \<open>Unfolding and evaluation\<close>

lemmas io_defs = io_return_def io_throw_def io_bind_def io_catch_def available_def getClient_def

lemmas store_defs = user_findUnique_def user_update_def chatroom_findFirst_def chatroom_update_def
  message_create_def message_findMany_asc_def dailyUsage_findUnique_def dailyUsage_create_def
  dailyUsage_update_def invalidateMessageCache_def newId_def

lemmas eval_defs = io_defs store_defs canSendMessage_def getSubscriptionLimits_def
  trackMessageUsage_def or_default_def startOfDay_def Let_def js_def trim_def isWhiteSpace_def
  defaultConfig_def

lemma io_bind_unfold:
  "io_bind m f w = (case fst (m w) of Inl e \<Rightarrow> (Inl e, snd (m w)) | Inr a \<Rightarrow> f a (snd (m w)))"
  by (simp add: io_bind_def split: prod.splits sum.splits)

lemma io_catch_unfold:
  "io_catch m h w = (case fst (m w) of Inl e \<Rightarrow> h e (snd (m w)) | Inr a \<Rightarrow> (Inr a, snd (m w)))"
  by (simp add: io_catch_def split: prod.splits sum.splits)

section \<open>Which steps leave which part of the world alone\<close>

lemma keepsD: "keeps f m \<Longrightarrow> m w = (r, w') \<Longrightarrow> f w' = f w"
  by (metis keeps_def snd_conv)

lemma keeps_messages_canSendMessage: "keeps w_messages (canSendMessage cfg down uid)"
  by (simp add: keeps_def canSendMessage_def io_defs user_findUnique_def
      split: option.splits prod.splits sum.splits)

lemma keeps_queue_canSendMessage: "keeps w_geminiQueue (canSendMessage cfg down uid)"
  by (simp add: keeps_def canSendMessage_def io_defs user_findUnique_def
      split: option.splits prod.splits sum.splits)

lemma keeps_messages_trackMessageUsage: "keeps w_messages (trackMessageUsage down uid)"
  by (auto simp: trackMessageUsage_def keeps_def io_defs dailyUsage_findUnique_def
        dailyUsage_create_def dailyUsage_update_def user_update_def newId_def Let_def
      split: option.splits prod.splits sum.splits)

lemma keeps_queue_trackMessageUsage: "keeps w_geminiQueue (trackMessageUsage down uid)"
  by (auto simp: trackMessageUsage_def keeps_def io_defs dailyUsage_findUnique_def
        dailyUsage_create_def dailyUsage_update_def user_update_def newId_def Let_def
      split: option.splits prod.splits sum.splits)

lemma keeps_requests_saveGeminiResponse:
  "keeps w_genRequests (saveGeminiResponse down omid cid uid resp)"
  by (auto simp: keeps_def saveGeminiResponse_def io_defs store_defs Let_def
      split: option.splits prod.splits sum.splits)

section \<open>Subscription gate: store errors\<close>

text \<open>
  C7. When the Prisma client or the read of the user row fails, \<open>canSendMessage\<close>
  returns (it does not throw) the answer "cannot send", reason \<open>System error\<close>, and leaves
  the store as it was; and whatever is down, \<open>canSendMessage\<close> returns a value rather
  than throwing.
\<close>

theorem canSendMessage_fails_closed:
  "(GetClient \<in> set down \<or> UserFindUnique \<in> set down \<longrightarrow>
      canSendMessage cfg down uid w
        = (Inr \<lparr>canSend = False, reason = Some ''System error''\<rparr>, w))
   \<and> (\<exists>r. canSendMessage cfg down uid w = (Inr r, w))"
  by (auto simp: canSendMessage_def io_defs user_findUnique_def
      split: option.splits prod.splits sum.splits)

theorem canSendMessage_fails_closed_witness:
  "UserFindUnique \<in> set [UserFindUnique]
   \<and> canSendMessage defaultConfig [UserFindUnique] ''u1'' w0
       = (Inr \<lparr>canSend = False, reason = Some ''System error''\<rparr>, w0)"
  using canSendMessage_fails_closed [of "[UserFindUnique]" defaultConfig "''u1''" w0]
  by simp

section \<open>Content validation on the write path\<close>

lemma createMessage_rejects:
  assumes "trim (cm_content d) = [] \<or> 4000 < length (cm_content d)"
  shows "\<exists>msg. createMessage cfg down cid uid d w = (Inl (ValidationError msg), w)"
  using assms by (auto simp: createMessage_def io_throw_def)

lemma createMessage_accepts:
  assumes "createMessage cfg down cid uid d w = (Inr m, w')"
  shows "m_content m = trim (cm_content d) \<and> m \<in> set (w_messages w')"
  using assms
  by (auto simp: createMessage_def io_defs message_create_def newId_def chatroom_findFirst_def
        chatroom_update_def invalidateMessageCache_def Let_def
      split: if_splits option.splits prod.splits sum.splits
      dest!: keepsD [OF keeps_messages_trackMessageUsage]
             keepsD [OF keeps_messages_canSendMessage])

lemma saveGeminiResponse_writes_unchecked:
  assumes "GetClient \<notin> set down" "ChatroomFindFirst \<notin> set down" "MessageCreate \<notin> set down"
    and "find (\<lambda>c. c_id c = cid) (w_chatrooms w) \<noteq> None"
  shows "w_messages (snd (saveGeminiResponse down omid cid uid resp w))
         = w_messages w @ [\<lparr>m_id = w_cuid w (w_nextId w), m_chatroomId = cid,
              m_content = pr_content resp, m_sender = ''ai'', m_messageType = ''text'',
              m_createdAt = w_now w\<rparr>]"
  using assms
  by (auto simp: saveGeminiResponse_def io_defs message_create_def newId_def chatroom_findFirst_def
        chatroom_update_def invalidateMessageCache_def Let_def
      split: if_splits option.splits prod.splits sum.splits)

text \<open>The example message, run through \<open>createMessage\<close> with the store up.\<close>

lemma hi_run:
  "down = [QueueAdd] \<or> down = [] \<Longrightarrow>
     createMessage defaultConfig down ''room1'' ''u1'' hi_data w0 = (Inr hi_message, w_hi)"
  by (auto simp: createMessage_def hi_data_def hi_message_def w0_def w_hi_def eval_defs)

text \<open>
  C10. \<open>createMessage\<close> rejects content that is empty or only white space, and content
  of more than 4000 code units, with a validation error and without touching the world;
  when it accepts, the stored message holds the trimmed content. \<open>saveGeminiResponse\<close>,
  when the store is up and the chatroom exists, appends the reply's content as it is, of
  whatever length, with sender \<open>ai\<close>.
\<close>

theorem createMessage_content_validation:
  "(trim (cm_content d) = [] \<or> 4000 < length (cm_content d) \<longrightarrow>
      (\<exists>msg. createMessage cfg down cid uid d w = (Inl (ValidationError msg), w)))
   \<and> (\<forall>m w'. createMessage cfg down cid uid d w = (Inr m, w') \<longrightarrow>
        m_content m = trim (cm_content d) \<and> m \<in> set (w_messages w'))
   \<and> (GetClient \<notin> set down \<and> ChatroomFindFirst \<notin> set down \<and> MessageCreate \<notin> set down
        \<and> find (\<lambda>c. c_id c = cid) (w_chatrooms w) \<noteq> None \<longrightarrow>
        w_messages (snd (saveGeminiResponse down omid cid uid resp w))
          = w_messages w @ [\<lparr>m_id = w_cuid w (w_nextId w), m_chatroomId = cid,
              m_content = pr_content resp, m_sender = ''ai'', m_messageType = ''text'',
              m_createdAt = w_now w\<rparr>])"
  using createMessage_rejects [of d cfg down cid uid w]
    createMessage_accepts [of cfg down cid uid d w]
    saveGeminiResponse_writes_unchecked [of down cid w omid uid resp]
  by blast

theorem createMessage_content_validation_witness:
  "4000 < length long_text
   \<and> (\<exists>msg. createMessage defaultConfig [] ''room1'' ''u1''
        \<lparr>cm_content = long_text, cm_sender = ''user'', cm_messageType = None\<rparr> w0
       = (Inl (ValidationError msg), w0))
   \<and> createMessage defaultConfig [] ''room1'' ''u1'' hi_data w0 = (Inr hi_message, w_hi)
   \<and> m_content hi_message = trim (cm_content hi_data)
   \<and> hi_message \<in> set (w_messages w_hi)
   \<and> map m_content (w_messages (snd (saveGeminiResponse [] ''c'' ''room1'' ''u1'' long_reply w0)))
       = [0x20 # long_text]"
proof -
  have 1: "4000 < length long_text" by (simp add: long_text_def)
  have 2: "createMessage defaultConfig [] ''room1'' ''u1'' hi_data w0 = (Inr hi_message, w_hi)"
    by (simp add: hi_run)
  have 3: "find (\<lambda>c. c_id c = ''room1'') (w_chatrooms w0) \<noteq> None"
    by (simp add: w0_def)
  have 4: "w_messages w0 = []" "pr_content long_reply = 0x20 # long_text"
    by (simp_all add: w0_def long_reply_def)
  show ?thesis
    using 1 2 3 4
      createMessage_content_validation [of "\<lparr>cm_content = long_text, cm_sender = ''user'', cm_messageType = None\<rparr>"
          defaultConfig "[]" "''room1''" "''u1''" w0 "''c''" long_reply]
      createMessage_content_validation [of hi_data defaultConfig "[]" "''room1''" "''u1''" w0 "''c''" long_reply]
    by simp
qed

section \<open>What the worker sends to the generation service\<close>

lemma getConversationHistory_pure:
  "\<exists>h. getConversationHistory down c w = (Inr h, w)"
  by (auto simp: getConversationHistory_def io_defs message_findMany_asc_def
      split: option.splits prod.splits sum.splits)

lemma getConversationHistory_absent:
  "c = None \<or> c = Some [] \<Longrightarrow> getConversationHistory down c w = (Inr [], w)"
  by (auto simp: getConversationHistory_def io_defs)

lemma getConversationHistory_unavailable:
  "GetClient \<in> set down \<or> MessageFindMany \<in> set down \<Longrightarrow>
     getConversationHistory down c w = (Inr [], w)"
  by (auto simp: getConversationHistory_def io_defs message_findMany_asc_def
      split: option.splits prod.splits sum.splits)

lemma formatHistoryForGemini_id: "formatHistoryForGemini h = h"
  by (simp add: formatHistoryForGemini_def map_idI)

lemma callGeminiAPI_request:
  assumes "getConversationHistory down (context_chatRoomId ctx) w = (Inr h, w)"
  shows "w_genRequests (snd (callGeminiAPI service down text ctx w))
         = w_genRequests w @ [built_request h text ctx]"
  using assms
  by (auto simp: callGeminiAPI_def generateResponse_def io_defs Let_def built_request_def
        formatHistoryForGemini_id
      split: option.splits prod.splits sum.splits)

lemma processGeminiJob_requests:
  assumes "getConversationHistory down (context_chatRoomId (j_context job)) w = (Inr h, w)"
  shows "w_genRequests (snd (processGeminiJob service down job w))
         = w_genRequests w @ (if UpdateProgress 10 \<in> set down then []
                              else [built_request h (j_userMessage job) (j_context job)])"
proof (cases "UpdateProgress 10 \<in> set down")
  case True
  then show ?thesis
    by (simp add: processGeminiJob_def updateProgress_def io_defs)
next
  case False
  obtain r w1 where c: "callGeminiAPI service down (j_userMessage job) (j_context job) w = (r, w1)"
    by (cases "callGeminiAPI service down (j_userMessage job) (j_context job) w")
  have w1: "w_genRequests w1 = w_genRequests w @ [built_request h (j_userMessage job) (j_context job)]"
    using callGeminiAPI_request [OF assms, of service "j_userMessage job"] c by simp
  show ?thesis
    using False c w1
    by (auto simp: processGeminiJob_def updateProgress_def processGeminiResponse_def io_defs
        split: prod.splits sum.splits
        dest!: keepsD [OF keeps_requests_saveGeminiResponse])
qed

section \<open>Submission: what \<open>sendMessage\<close> does around the queue\<close>

lemma enqueue_fails:
  "w_geminiQueue w = None \<or> QueueAdd \<in> set down \<Longrightarrow>
     \<exists>e. enqueueGeminiMessage down job w = (Inl e, w)"
  by (auto simp: enqueueGeminiMessage_def io_defs split: option.splits)

lemma enqueue_ok:
  assumes "enqueueGeminiMessage down d w = (Inr job, w')"
  shows "\<exists>q. w_geminiQueue w' = Some (q @ [job]) \<and> q_data job = d"
  using assms
  by (auto simp: enqueueGeminiMessage_def io_defs Let_def split: option.splits if_splits)

text \<open>
  The handler \<open>sendMessage\<close> degrades: when the user's message has been stored and the
  enqueue then fails (the queue is not registered, or Redis refuses the add), it answers
  201 \<open>success\<close> with the warning \<open>AI processing unavailable\<close>, and the world it leaves is
  the one \<open>createMessage\<close> left: the stored message is still there.
\<close>

lemma sendMessage_enqueue_failure_degrades:
  assumes "sr_user req = Some uid" and "sr_chatroomId req \<noteq> []" and "sr_processWithGemini req"
    and "createMessage cfg down (sr_chatroomId req) uid
           \<lparr>cm_content = sr_content req, cm_sender = ''user'',
            cm_messageType = Some (or_default (sr_messageType req) ''text'')\<rparr> w = (Inr m, w1)"
    and "w_geminiQueue w1 = None \<or> QueueAdd \<in> set down"
  shows "sendMessage cfg down req w
           = (Inr \<lparr>rs_code = 201, rs_status = ''success'',
                   rs_message = ''Message sent successfully, but AI processing failed to queue'',
                   rs_data_message = Some m, rs_data_geminiJob = None,
                   rs_data_warning = Some ''AI processing unavailable''\<rparr>, w1)
         \<and> m \<in> set (w_messages w1)"
proof -
  have stored: "m \<in> set (w_messages w1)"
    using createMessage_accepts [OF assms(4)] by simp
  obtain e where "enqueueGeminiMessage down
                            \<lparr>j_messageId = m_id m, j_chatRoomId = sr_chatroomId req,
                             j_userId = uid, j_userMessage = sr_content req,
                             j_context = Some \<lparr>cx_messageType =
                                                 Some (or_default (sr_messageType req) ''text''),
                                               cx_chatRoomId = None, cx_userId = None\<rparr>,
                             j_metadata = Some \<lparr>md_timestamp = w_now w1,
                                                md_clientId = sr_clientId req,
                                                md_sessionId = sr_sessionId req\<rparr>\<rparr> w1 = (Inl e, w1)"
    using enqueue_fails [OF assms(5)] by blast
  then show ?thesis
    using assms(1-4) stored
    by (simp add: sendMessage_def io_bind_def io_catch_def io_return_def)
qed

lemma sendMessage_degrades_at_hi:
  "sendMessage defaultConfig [QueueAdd] hi_req w0
     = (Inr \<lparr>rs_code = 201, rs_status = ''success'',
             rs_message = ''Message sent successfully, but AI processing failed to queue'',
             rs_data_message = Some hi_message, rs_data_geminiJob = None,
             rs_data_warning = Some ''AI processing unavailable''\<rparr>, w_hi)
   \<and> hi_message \<in> set (w_messages w_hi)"
proof -
  have "createMessage defaultConfig [QueueAdd] (sr_chatroomId hi_req) ''u1''
           \<lparr>cm_content = sr_content hi_req, cm_sender = ''user'',
            cm_messageType = Some (or_default (sr_messageType hi_req) ''text'')\<rparr> w0
         = (Inr hi_message, w_hi)"
    using hi_run [of "[QueueAdd]"] by (simp add: hi_req_def hi_data_def or_default_def)
  with sendMessage_enqueue_failure_degrades
         [where req = hi_req and uid = "''u1''" and cfg = defaultConfig and down = "[QueueAdd]"
            and w = w0 and m = hi_message and ?w1.0 = w_hi]
  show ?thesis
    by (simp add: hi_req_def)
qed

lemma sendMessage_job:
  assumes "sendMessage cfg down req w = (Inr rs, w')" and "rs_data_geminiJob rs = Some jid"
  shows "\<exists>q job. w_geminiQueue w' = Some (q @ [job]) \<and> q_id job = jid
           \<and> context_chatRoomId (j_context (q_data job)) = None
           \<and> j_userMessage (q_data job) = sr_content req"
proof -
  from assms obtain uid where uid: "sr_user req = Some uid"
    by (cases "sr_user req") (auto simp: sendMessage_def io_return_def)
  from assms uid have room: "sr_chatroomId req \<noteq> []"
    by (auto simp: sendMessage_def io_return_def)
  obtain r1 w1 where c: "createMessage cfg down (sr_chatroomId req) uid
           \<lparr>cm_content = sr_content req, cm_sender = ''user'',
            cm_messageType = Some (or_default (sr_messageType req) ''text'')\<rparr> w = (r1, w1)"
    by (cases "createMessage cfg down (sr_chatroomId req) uid
           \<lparr>cm_content = sr_content req, cm_sender = ''user'',
            cm_messageType = Some (or_default (sr_messageType req) ''text'')\<rparr> w")
  from assms uid room c obtain m where m: "r1 = Inr m"
    by (cases r1) (auto simp: sendMessage_def io_bind_def)
  let ?d = "\<lparr>j_messageId = m_id m, j_chatRoomId = sr_chatroomId req,
                             j_userId = uid, j_userMessage = sr_content req,
                             j_context = Some \<lparr>cx_messageType =
                                                 Some (or_default (sr_messageType req) ''text''),
                                               cx_chatRoomId = None, cx_userId = None\<rparr>,
                             j_metadata = Some \<lparr>md_timestamp = w_now w1,
                                                md_clientId = sr_clientId req,
                                                md_sessionId = sr_sessionId req\<rparr>\<rparr>"
  obtain r2 w2 where e: "enqueueGeminiMessage down ?d w1 = (r2, w2)"
    by (cases "enqueueGeminiMessage down ?d w1")
  from assms uid room c m e obtain job where job: "r2 = Inr job" "w' = w2" "q_id job = jid"
    by (cases r2; cases "sr_processWithGemini req")
       (auto simp: sendMessage_def io_bind_def io_catch_def io_return_def)
  from enqueue_ok e job obtain q where "w_geminiQueue w' = Some (q @ [job])" "q_data job = ?d"
    by blast
  with job show ?thesis
    by (auto simp: context_chatRoomId_def)
qed

text \<open>
  C9. A job that \<open>sendMessage\<close> has enqueued carries a context without \<open>chatRoomId\<close>. For
  such a job \<open>getConversationHistory\<close> returns the empty history in every store, and the
  one request that \<open>processGeminiJob\<close> sends to the generation service (it sends none
  when the first progress update fails) has an empty history, whatever the chatroom holds.
\<close>

theorem sendMessage_jobs_carry_no_history:
  assumes "sendMessage cfg down req w = (Inr rs, w')" and "rs_data_geminiJob rs = Some jid"
  shows "\<exists>q job. w_geminiQueue w' = Some (q @ [job]) \<and> q_id job = jid
           \<and> context_chatRoomId (j_context (q_data job)) = None
           \<and> (\<forall>down' v. getConversationHistory down' (context_chatRoomId (j_context (q_data job))) v
                  = (Inr [], v))
           \<and> (\<forall>service down' v.
                  w_genRequests (snd (processGeminiJob service down' (q_data job) v))
                    = w_genRequests v
                      @ (if UpdateProgress 10 \<in> set down' then []
                         else [\<lparr>rq_history = [], rq_maxOutputTokens = 2048,
                                rq_prompt = js basePrompt @ js (newline @ newline @ ''User: '')
                                            @ sr_content req\<rparr>]))"
proof -
  from sendMessage_job [OF assms] obtain q job where
    job: "w_geminiQueue w' = Some (q @ [job])" "q_id job = jid"
      "context_chatRoomId (j_context (q_data job)) = None"
      "j_userMessage (q_data job) = sr_content req"
    by blast
  have empty: "getConversationHistory down' (context_chatRoomId (j_context (q_data job))) v
                  = (Inr [], v)" for down' v
    using job(3) by (simp add: getConversationHistory_absent)
  have "w_genRequests (snd (processGeminiJob service down' (q_data job) v))
          = w_genRequests v
            @ (if UpdateProgress 10 \<in> set down' then []
               else [\<lparr>rq_history = [], rq_maxOutputTokens = 2048,
                      rq_prompt = js basePrompt @ js (newline @ newline @ ''User: '')
                                  @ sr_content req\<rparr>])" for service down' v
    using processGeminiJob_requests [OF empty, of service down' v] job(3,4)
    by (simp add: built_request_def generateSystemPrompt_def js_def basePrompt_def)
  with job empty show ?thesis by blast
qed

lemma hi_send: "sendMessage defaultConfig [] hi_req w0
                  = (Inr hi_response, w_hi\<lparr>w_geminiQueue := Some [hi_queued], w_nextJobId := 2\<rparr>)"
proof -
  have "createMessage defaultConfig [] ''room1'' ''u1''
           \<lparr>cm_content = js '' hi '', cm_sender = ''user'', cm_messageType = Some ''text''\<rparr> w0
         = (Inr hi_message, w_hi)"
    using hi_run [of "[]"] by (simp add: hi_data_def)
  moreover have "enqueueGeminiMessage [] hi_job w_hi
                   = (Inr hi_queued, w_hi\<lparr>w_geminiQueue := Some [hi_queued], w_nextJobId := 2\<rparr>)"
    by (simp add: enqueueGeminiMessage_def io_defs w_hi_def w0_def hi_queued_def
        JOB_PRIORITY_HIGH_def Let_def)
  moreover have "w_now w_hi = 1000" "m_id hi_message = ''c''"
    by (simp_all add: w_hi_def w0_def hi_message_def)
  ultimately show ?thesis
    by (simp add: sendMessage_def hi_req_def or_default_def io_bind_def io_catch_def io_return_def
        hi_response_def hi_job_def hi_queued_def)
qed

theorem sendMessage_jobs_carry_no_history_witness:
  "sendMessage defaultConfig [] hi_req w0
     = (Inr hi_response, w_hi\<lparr>w_geminiQueue := Some [hi_queued], w_nextJobId := 2\<rparr>)
   \<and> rs_data_geminiJob hi_response = Some 1
   \<and> context_chatRoomId (j_context (q_data hi_queued)) = None
   \<and> map rq_history (w_genRequests (snd (processGeminiJob service_ok [] (q_data hi_queued) w_hi)))
       = [ [] ]"
proof -
  have job: "rs_data_geminiJob hi_response = Some 1"
    by (simp add: hi_response_def)
  from sendMessage_jobs_carry_no_history [OF hi_send job]
  obtain q job where
      "w_geminiQueue (w_hi\<lparr>w_geminiQueue := Some [hi_queued], w_nextJobId := 2\<rparr>) = Some (q @ [job])"
      and rest: "context_chatRoomId (j_context (q_data job)) = None"
      "\<forall>service down' v.
                  w_genRequests (snd (processGeminiJob service down' (q_data job) v))
                    = w_genRequests v
                      @ (if UpdateProgress 10 \<in> set down' then []
                         else [\<lparr>rq_history = [], rq_maxOutputTokens = 2048,
                                rq_prompt = js basePrompt @ js (newline @ newline @ ''User: '')
                                            @ sr_content hi_req\<rparr>])"
    by blast
  then have "job = hi_queued" by simp
  with rest(1) rest(2) [rule_format, of service_ok "[]" w_hi] hi_send job show ?thesis
    by (simp add: w_hi_def w0_def)
qed

section \<open>Submission through \<open>sendMessageToChatroom\<close>\<close>

lemma sendMessageToChatroom_enqueue_failure:
  assumes "sr_user req = Some uid" and "sr_chatroomId req \<noteq> []"
    and "trim (sr_content req) \<noteq> []"
    and "createMessage cfg down (sr_chatroomId req) uid
           \<lparr>cm_content = trim (sr_content req), cm_sender = ''user'',
            cm_messageType = Some (body_messageType req)\<rparr> w = (Inr m, w1)"
    and "w_geminiQueue w1 = None \<or> QueueAdd \<in> set down"
  shows "sendMessageToChatroom cfg down req w
           = (Inr \<lparr>rs_code = 500, rs_status = ''error'',
                   rs_message = ''Failed to send message'', rs_data_message = None,
                   rs_data_geminiJob = None, rs_data_warning = None\<rparr>, w1)
         \<and> m \<in> set (w_messages w1)"
proof -
  have stored: "m \<in> set (w_messages w1)"
    using createMessage_accepts [OF assms(4)] by simp
  have content: "sr_content req \<noteq> []"
    using assms(3) by (auto simp: trim_def)
  obtain e where "enqueueGeminiMessage down
                           \<lparr>j_messageId = m_id m, j_chatRoomId = sr_chatroomId req,
                            j_userId = uid, j_userMessage = trim (sr_content req),
                            j_context = Some \<lparr>cx_messageType = Some (body_messageType req),
                                              cx_chatRoomId = Some (sr_chatroomId req),
                                              cx_userId = Some uid\<rparr>,
                            j_metadata = Some \<lparr>md_timestamp = w_now w1,
                                               md_clientId = sr_clientId req,
                                               md_sessionId = sr_sessionId req\<rparr>\<rparr> w1 = (Inl e, w1)"
    using enqueue_fails [OF assms(5)] by blast
  then show ?thesis
    using assms(1-4) stored content
    by (simp add: sendMessageToChatroom_def io_bind_def io_catch_def io_return_def)
qed

lemma hi_run_trimmed:
  "createMessage defaultConfig [QueueAdd] ''room1'' ''u1''
     \<lparr>cm_content = trim (js '' hi ''), cm_sender = ''user'', cm_messageType = Some ''text''\<rparr> w0
   = (Inr hi_message, w_hi)"
  by (simp add: createMessage_def hi_message_def w0_def w_hi_def eval_defs)

text \<open>
  C8, evaluated on \<open>sendMessageToChatroom\<close>. The user of \<open>w0\<close> posts \<open>" hi "\<close> to the
  chatroom while Redis refuses the add. The message is stored (the world left is \<open>w_hi\<close>,
  which holds it, with the usage counted), and the handler answers 500
  \<open>Failed to send message\<close>: not the degraded success that \<open>sendMessage\<close> gives on the
  same input.
\<close>

theorem sendMessageToChatroom_enqueue_failure_answers_500:
  "sendMessageToChatroom defaultConfig [QueueAdd] hi_req w0
     = (Inr \<lparr>rs_code = 500, rs_status = ''error'', rs_message = ''Failed to send message'',
             rs_data_message = None, rs_data_geminiJob = None, rs_data_warning = None\<rparr>, w_hi)
   \<and> hi_message \<in> set (w_messages w_hi)
   \<and> sendMessage defaultConfig [QueueAdd] hi_req w0
       = (Inr \<lparr>rs_code = 201, rs_status = ''success'',
               rs_message = ''Message sent successfully, but AI processing failed to queue'',
               rs_data_message = Some hi_message, rs_data_geminiJob = None,
               rs_data_warning = Some ''AI processing unavailable''\<rparr>, w_hi)"
proof -
  have sel: "sr_user hi_req = Some ''u1''" "sr_chatroomId hi_req = ''room1''"
    "sr_content hi_req = js '' hi ''" "body_messageType hi_req = ''text''"
    by (simp_all add: hi_req_def body_messageType_def)
  have nonempty: "trim (sr_content hi_req) \<noteq> []"
    by (simp add: sel js_def trim_def isWhiteSpace_def)
  have create: "createMessage defaultConfig [QueueAdd] (sr_chatroomId hi_req) ''u1''
           \<lparr>cm_content = trim (sr_content hi_req), cm_sender = ''user'',
            cm_messageType = Some (body_messageType hi_req)\<rparr> w0 = (Inr hi_message, w_hi)"
    by (simp add: sel hi_run_trimmed)
  have down: "w_geminiQueue w_hi = None \<or> QueueAdd \<in> set [QueueAdd]"
    by simp
  have room: "sr_chatroomId hi_req \<noteq> []"
    by (simp add: sel)
  from sendMessageToChatroom_enqueue_failure [OF sel(1) room nonempty create down]
    sendMessage_degrades_at_hi
  show ?thesis by simp
qed

section \<open>The daily limit: where it is enforced\<close>

text \<open>
  C5, as the code has it. For a user with an active subscription whose daily count has
  reached the limit of the tier, \<open>canSendMessage\<close> (the store being readable) answers
  "cannot send" with reason \<open>Daily message limit exceeded\<close>; \<open>sendMessage\<close> for that
  user changes nothing in the world (no message stored, no job enqueued) and answers at
  best 400. The worker itself asks no one: for every job, also one for that user, a run
  of \<open>processGeminiJob\<close> whose first progress update succeeds sends one request to the
  generation service.
\<close>

theorem canSendMessage_at_limit:
  assumes "find (\<lambda>u. u_id u = uid) (w_users w) = Some u"
    and "u_subscriptionStatus u = ''active''"
    and "dailyMessageLimit (getSubscriptionLimits cfg (u_subscriptionTier u)) \<le> u_dailyMessageCount u"
    and "GetClient \<notin> set down" and "UserFindUnique \<notin> set down"
  shows "canSendMessage cfg down uid w
           = (Inr \<lparr>canSend = False, reason = Some ''Daily message limit exceeded''\<rparr>, w)
         \<and> (\<forall>req. sr_user req = Some uid \<longrightarrow>
               snd (sendMessage cfg down req w) = w
               \<and> (\<forall>rs. fst (sendMessage cfg down req w) = Inr rs \<longrightarrow> rs_code rs = 400))
         \<and> (\<forall>service down' job v. j_userId job = uid \<and> UpdateProgress 10 \<notin> set down' \<longrightarrow>
               length (w_genRequests (snd (processGeminiJob service down' job v)))
                 = Suc (length (w_genRequests v)))"
proof -
  have gate: "canSendMessage cfg down uid w
           = (Inr \<lparr>canSend = False, reason = Some ''Daily message limit exceeded''\<rparr>, w)"
    using assms by (simp add: canSendMessage_def io_defs user_findUnique_def)
  have create: "\<exists>e. createMessage cfg down cid uid d w = (Inl e, w)" if "cm_sender d = ''user''" for cid d
    using gate that assms(4)
    by (auto simp: createMessage_def io_defs chatroom_findFirst_def split: option.splits)
  have send: "snd (sendMessage cfg down req w) = w
               \<and> (\<forall>rs. fst (sendMessage cfg down req w) = Inr rs \<longrightarrow> rs_code rs = 400)"
    if "sr_user req = Some uid" for req
  proof -
    obtain e where "createMessage cfg down (sr_chatroomId req) uid
           \<lparr>cm_content = sr_content req, cm_sender = ''user'',
            cm_messageType = Some (or_default (sr_messageType req) ''text'')\<rparr> w = (Inl e, w)"
      using create [of "\<lparr>cm_content = sr_content req, cm_sender = ''user'',
            cm_messageType = Some (or_default (sr_messageType req) ''text'')\<rparr>" "sr_chatroomId req"]
      by auto
    with that show ?thesis
      by (simp add: sendMessage_def io_bind_def io_return_def)
  qed
  have work: "length (w_genRequests (snd (processGeminiJob service down' job v)))
                 = Suc (length (w_genRequests v))"
    if "UpdateProgress 10 \<notin> set down'" for service down' job v
  proof -
    obtain h where "getConversationHistory down' (context_chatRoomId (j_context job)) v = (Inr h, v)"
      using getConversationHistory_pure by blast
    from processGeminiJob_requests [OF this, of service] that show ?thesis by simp
  qed
  from gate send work show ?thesis by blast
qed

theorem canSendMessage_at_limit_witness:
  "find (\<lambda>u. u_id u = ''u1'') (w_users w_limit) = Some u_limit
   \<and> u_subscriptionStatus u_limit = ''active''
   \<and> dailyMessageLimit (getSubscriptionLimits defaultConfig (u_subscriptionTier u_limit))
       \<le> u_dailyMessageCount u_limit
   \<and> canSendMessage defaultConfig [] ''u1'' w_limit
       = (Inr \<lparr>canSend = False, reason = Some ''Daily message limit exceeded''\<rparr>, w_limit)
   \<and> snd (sendMessage defaultConfig [] hi_req w_limit) = w_limit
   \<and> length (w_genRequests (snd (processGeminiJob service_ok [] test_job w_limit))) = 1"
proof -
  have 1: "find (\<lambda>u. u_id u = ''u1'') (w_users w_limit) = Some u_limit"
    by (simp add: w_limit_def u_limit_def)
  have 2: "u_subscriptionStatus u_limit = ''active''"
    by (simp add: u_limit_def)
  have 3: "dailyMessageLimit (getSubscriptionLimits defaultConfig (u_subscriptionTier u_limit))
       \<le> u_dailyMessageCount u_limit"
    by (simp add: u_limit_def getSubscriptionLimits_def defaultConfig_def)
  have 4: "sr_user hi_req = Some ''u1''" "j_userId test_job = ''u1''"
    "w_genRequests w_limit = []"
    by (simp_all add: hi_req_def test_job_def w_limit_def w0_def)
  from canSendMessage_at_limit [OF 1 2 3, of "[]"] 1 2 3 4 show ?thesis
    by simp
qed

text \<open>The unrouted test endpoint enqueues for a user at the limit without asking.\<close>

lemma enqueueTestMessage_ungated:
  "canSendMessage defaultConfig [] ''u1'' w_limit
       = (Inr \<lparr>canSend = False, reason = Some ''Daily message limit exceeded''\<rparr>, w_limit)
   \<and> w_geminiQueue (snd (enqueueTestMessage [] test_req w_limit)) = Some [test_queued]"
  by (simp add: w_limit_def u_limit_def w0_def eval_defs
        enqueueTestMessage_def test_req_def enqueueGeminiMessage_def
        test_queued_def test_job_def JOB_PRIORITY_HIGH_def)

text \<open>
  C5 as stated fails. The user of \<open>w4\<close> has sent four of five allowed messages.
  \<open>sendMessage\<close> stores the fifth and enqueues its job, leaving \<open>w5\<close>, where the count
  has reached the limit and \<open>canSendMessage\<close> refuses; the worker, run in \<open>w5\<close> on the
  job enqueued for that user, still calls the generation service.
\<close>

theorem no_gating_in_worker_counterexample:
  "sendMessage defaultConfig [] hi_req w4 = (Inr hi_response, w5)
   \<and> w_geminiQueue w5 = Some [hi_queued]
   \<and> j_userId (q_data hi_queued) = ''u1''
   \<and> canSendMessage defaultConfig [] ''u1'' w5
       = (Inr \<lparr>canSend = False, reason = Some ''Daily message limit exceeded''\<rparr>, w5)
   \<and> map rq_history (w_genRequests (snd (processGeminiJob service_ok [] (q_data hi_queued) w5)))
       = [ [] ]"
proof -
  have create: "createMessage defaultConfig [] ''room1'' ''u1''
           \<lparr>cm_content = js '' hi '', cm_sender = ''user'', cm_messageType = Some ''text''\<rparr> w4
         = (Inr hi_message, w5\<lparr>w_geminiQueue := Some [], w_nextJobId := 1\<rparr>)"
    by (simp add: createMessage_def hi_message_def w4_def w5_def w0_def eval_defs)
  have enq: "enqueueGeminiMessage [] hi_job (w5\<lparr>w_geminiQueue := Some [], w_nextJobId := 1\<rparr>)
               = (Inr hi_queued, w5)"
    by (simp add: enqueueGeminiMessage_def io_defs w5_def w0_def hi_queued_def
        JOB_PRIORITY_HIGH_def Let_def)
  have sel: "w_now (w5\<lparr>w_geminiQueue := Some [], w_nextJobId := 1\<rparr>) = 1000"
    "m_id hi_message = ''c''" "q_id hi_queued = 1"
    by (simp_all add: w5_def w0_def hi_message_def hi_queued_def)
  have send: "sendMessage defaultConfig [] hi_req w4 = (Inr hi_response, w5)"
    using create enq sel
    by (simp add: sendMessage_def hi_req_def or_default_def io_bind_def io_catch_def io_return_def
        hi_response_def hi_job_def)
  have gate: "canSendMessage defaultConfig [] ''u1'' w5
       = (Inr \<lparr>canSend = False, reason = Some ''Daily message limit exceeded''\<rparr>, w5)"
    by (simp add: w5_def w0_def eval_defs)
  have hist: "getConversationHistory [] (context_chatRoomId (j_context hi_job)) w5 = (Inr [], w5)"
    by (simp add: getConversationHistory_absent hi_job_def context_chatRoomId_def)
  have work: "map rq_history (w_genRequests (snd (processGeminiJob service_ok [] hi_job w5))) = [ [] ]"
    using processGeminiJob_requests [OF hist, of service_ok]
    by (simp add: w5_def w0_def built_request_def)
  from send gate work show ?thesis
    by (simp add: w5_def hi_queued_def hi_job_def)
qed

section \<open>Context building\<close>


text \<open>With the store up, the history is built from the ten oldest messages of the
  chatroom: ascending creation time, first ten.\<close>

lemma getConversationHistory_store_up:
  assumes "GetClient \<notin> set down" and "MessageFindMany \<notin> set down" and "cid \<noteq> []"
  shows "getConversationHistory down (Some cid) w
         = (Inr (map (\<lambda>m. \<lparr>g_role = (if m_sender m = ''user'' then RoleUser else RoleModel),
                            g_parts = [m_content m]\<rparr>)
                   (take 10 (sort_key m_createdAt
                      (filter (\<lambda>m. m_chatroomId m = cid) (w_messages w))))), w)"
  using assms by (simp add: getConversationHistory_def io_defs message_findMany_asc_def)

text \<open>
  C2, evaluated on the chatroom with twelve messages: the window the worker builds is
  messages 1 to 10, the ten oldest, and not messages 3 to 12.
\<close>

theorem getConversationHistory_takes_oldest_ten:
  "getConversationHistory [] (Some ''room1'') w12
     = (Inr (map turn_n [1, 2, 3, 4, 5, 6, 7, 8, 9, 10]), w12)"
  by (simp add: getConversationHistory_store_up w12_def w0_def msg_n_def turn_n_def)

text \<open>
  C6, as the code has it. \<open>getConversationHistory\<close> never throws and never changes the
  world. When the Prisma client or the query is unavailable it returns the empty history,
  and \<open>callGeminiAPI\<close> goes on to send its request to the generation service with that
  empty history.
\<close>

theorem getConversationHistory_swallows_store_failure:
  "(\<exists>h. getConversationHistory down c w = (Inr h, w))
   \<and> (GetClient \<in> set down \<or> MessageFindMany \<in> set down \<longrightarrow>
        getConversationHistory down c w = (Inr [], w)
        \<and> (\<forall>service umsg ctx.
              map rq_history (w_genRequests (snd (callGeminiAPI service down umsg ctx w)))
                = map rq_history (w_genRequests w) @ [ [] ]))"
proof -
  have "map rq_history (w_genRequests (snd (callGeminiAPI service down umsg ctx w)))
          = map rq_history (w_genRequests w) @ [ [] ]"
    if "GetClient \<in> set down \<or> MessageFindMany \<in> set down" for service umsg ctx
  proof -
    from that have "getConversationHistory down (context_chatRoomId ctx) w = (Inr [], w)"
      by (rule getConversationHistory_unavailable)
    from callGeminiAPI_request [OF this, of service umsg] show ?thesis
      by (simp add: built_request_def)
  qed
  then show ?thesis
    using getConversationHistory_pure [of down c w] getConversationHistory_unavailable [of down c w]
    by blast
qed

theorem getConversationHistory_swallows_store_failure_witness:
  "MessageFindMany \<in> set [MessageFindMany]
   \<and> getConversationHistory [MessageFindMany] (Some ''room1'') w12 = (Inr [], w12)
   \<and> map rq_history (w_genRequests (snd (callGeminiAPI service_ok [MessageFindMany]
         (js ''hello'') (j_context room_job) w12))) = [ [] ]"
  using getConversationHistory_swallows_store_failure [of "[MessageFindMany]" "Some ''room1''" w12]
  by (simp add: w12_def w0_def)

text \<open>
  C6 as stated fails: with the message query down, the job for the chatroom of
  twelve messages is not failed for a retry; it completes, having called the generation
  service with an empty window and stored the reply.
\<close>

theorem context_failure_not_retried_counterexample:
  "fst (processGeminiJob service_ok [MessageFindMany] room_job w12)
     = Inr \<lparr>jr_messageId = ''m13'', jr_chatRoomId = ''room1'', jr_userId = ''u1'',
            jr_geminiResponse = hello_processed (j_context room_job),
            jr_savedMessageId = ''c''\<rparr>
   \<and> map rq_history (w_genRequests (snd (processGeminiJob service_ok [MessageFindMany] room_job w12)))
       = [ [] ]"
proof -
  have hist: "getConversationHistory [MessageFindMany] (context_chatRoomId (j_context room_job)) w12
                = (Inr [], w12)"
    by (simp add: getConversationHistory_unavailable)
  have 1: "map rq_history (w_genRequests (snd (processGeminiJob service_ok [MessageFindMany] room_job w12)))
       = [ [] ]"
    using processGeminiJob_requests [OF hist, of service_ok]
    by (simp add: w12_def w0_def built_request_def)
  have call: "callGeminiAPI service_ok [MessageFindMany] (j_userMessage room_job) (j_context room_job) w12
          = (Inr \<lparr>gr_content = js ''Hello!'', gr_promptTokens = 0, gr_responseTokens = 0,
                   gr_totalTokens = 0, gr_model = ''gemini-1.5-flash'',
                   gr_finishReason = ''STOP''\<rparr>,
             w12\<lparr>w_genRequests := [built_request [] (j_userMessage room_job) (j_context room_job)]\<rparr>)"
    using hist
    by (simp add: callGeminiAPI_def generateResponse_def io_bind_def io_catch_def Let_def
        service_ok_def built_request_def formatHistoryForGemini_id w12_def w0_def
        split: option.splits)
  have proc: "processGeminiResponse \<lparr>gr_content = js ''Hello!'', gr_promptTokens = 0, gr_responseTokens = 0,
                   gr_totalTokens = 0, gr_model = ''gemini-1.5-flash'',
                   gr_finishReason = ''STOP''\<rparr> ctx v = (Inr (hello_processed ctx), v)" for ctx v
    by (simp add: processGeminiResponse_def io_return_def hello_processed_def js_def
        split_space_count_def)
  have save: "fst (saveGeminiResponse [MessageFindMany] ''m13'' ''room1'' ''u1'' resp
                (w12\<lparr>w_genRequests := rqs\<rparr>))
              = Inr \<lparr>sv_id = ''c'', sv_content = pr_content resp, sv_sender = ''ai'',
                     sv_messageType = ''text''\<rparr>" for resp rqs
    by (simp add: saveGeminiResponse_def io_defs store_defs Let_def w12_def w0_def)
  have sel: "j_messageId room_job = ''m13''" "j_chatRoomId room_job = ''room1''"
    "j_userId room_job = ''u1''"
    by (simp_all add: room_job_def)
  have 2: "fst (processGeminiJob service_ok [MessageFindMany] room_job w12)
     = Inr \<lparr>jr_messageId = ''m13'', jr_chatRoomId = ''room1'', jr_userId = ''u1'',
            jr_geminiResponse = hello_processed (j_context room_job),
            jr_savedMessageId = ''c''\<rparr>"
    by (simp add: processGeminiJob_def updateProgress_def available_def io_bind_unfold
        io_catch_unfold io_return_def call proc sel save)
  from 1 2 show ?thesis by simp
qed

section \<open>Persisting the reply\<close>

lemma saveGeminiResponse_effect:
  assumes "saveGeminiResponse down omid cid uid resp w = (r, w')"
  shows "\<exists>sv. r = Inr sv
           \<and> ((w_messages w' = w_messages w \<and> sv_id sv = ''failed-save'')
               \<or> (\<exists>m. w_messages w' = w_messages w @ [m] \<and> m_sender m = ''ai''
                      \<and> m_chatroomId m = cid \<and> m_content m = pr_content resp))"
  using assms
  by (auto simp: saveGeminiResponse_def io_defs store_defs Let_def
      split: if_splits option.splits prod.splits sum.splits)

lemma saveGeminiResponse_fails:
  assumes "GetClient \<in> set down \<or> ChatroomFindFirst \<in> set down \<or> MessageCreate \<in> set down
           \<or> find (\<lambda>c. c_id c = cid) (w_chatrooms w) = None"
  shows "saveGeminiResponse down omid cid uid resp w
         = (Inr \<lparr>sv_id = ''failed-save'', sv_content = js ''Failed to save AI response'',
                  sv_sender = ''ai'', sv_messageType = ''text''\<rparr>, w)"
  using assms
  by (auto simp: saveGeminiResponse_def io_defs store_defs Let_def
      split: if_splits option.splits prod.splits sum.splits)

lemma callGeminiAPI_rest:
  assumes "callGeminiAPI service down umsg ctx w = (r, w')"
  shows "w_messages w' = w_messages w \<and> w_chatrooms w' = w_chatrooms w"
proof -
  obtain h where "getConversationHistory down (context_chatRoomId ctx) w = (Inr h, w)"
    using getConversationHistory_pure by blast
  with assms show ?thesis
    by (auto simp: callGeminiAPI_def generateResponse_def io_defs Let_def
      split: option.splits prod.splits sum.splits)
qed

lemma processGeminiJob_completed:
  assumes "processGeminiJob service down job w = (Inr r, w')"
  shows "(w_messages w' = w_messages w \<and> jr_savedMessageId r = ''failed-save'')
         \<or> (\<exists>m. w_messages w' = w_messages w @ [m] \<and> m_sender m = ''ai''
                \<and> m_chatroomId m = j_chatRoomId job
                \<and> m_content m = pr_content (jr_geminiResponse r))"
  using assms
  by (auto simp: processGeminiJob_def updateProgress_def available_def io_bind_def io_catch_def
        io_return_def io_throw_def processGeminiResponse_def
      split: if_splits prod.splits sum.splits
      dest!: callGeminiAPI_rest saveGeminiResponse_effect)

lemma processGeminiJob_save_failed:
  assumes up: "UpdateProgress 10 \<notin> set down" "UpdateProgress 60 \<notin> set down"
      "UpdateProgress 80 \<notin> set down" "UpdateProgress 100 \<notin> set down"
    and gen: "callGeminiAPI service down (j_userMessage job) (j_context job) w = (Inr g, w1)"
    and save: "GetClient \<in> set down \<or> ChatroomFindFirst \<in> set down \<or> MessageCreate \<in> set down
           \<or> find (\<lambda>c. c_id c = j_chatRoomId job) (w_chatrooms w) = None"
  shows "\<exists>r. processGeminiJob service down job w = (Inr r, w1)
           \<and> jr_savedMessageId r = ''failed-save''
           \<and> pr_content (jr_geminiResponse r) = gr_content g
           \<and> w_messages w1 = w_messages w"
proof -
  from callGeminiAPI_rest [OF gen] have same: "w_messages w1 = w_messages w"
    "w_chatrooms w1 = w_chatrooms w" by simp_all
  from save same have "GetClient \<in> set down \<or> ChatroomFindFirst \<in> set down \<or> MessageCreate \<in> set down
           \<or> find (\<lambda>c. c_id c = j_chatRoomId job) (w_chatrooms w1) = None"
    by simp
  from saveGeminiResponse_fails [OF this] up gen same show ?thesis
    by (simp add: processGeminiJob_def updateProgress_def available_def io_bind_def io_catch_def
        io_return_def processGeminiResponse_def)
qed

text \<open>
  C1, as the code has it, for one run of \<open>processGeminiJob\<close> (one attempt at a job;
  \<open>w\<close> is the world when the attempt starts). A run that returns normally has added,
  during that run, at most one message, with sender \<open>ai\<close>, in the job's chatroom and
  holding the generated content; when it has added none, its result names the mock id
  \<open>failed-save\<close>. When generation succeeds and the save then cannot be made (the store is
  down for it, or the chatroom is gone), the save's error is swallowed: the run still
  returns normally (the progress updates succeeding), with \<open>savedMessageId = failed-save\<close>
  and the generated content in its result, and it has stored no message.
\<close>

theorem processGeminiJob_save_failure_completes:
  "(\<forall>r w'. processGeminiJob service down job w = (Inr r, w') \<longrightarrow>
      (w_messages w' = w_messages w \<and> jr_savedMessageId r = ''failed-save'')
      \<or> (\<exists>m. w_messages w' = w_messages w @ [m] \<and> m_sender m = ''ai''
             \<and> m_chatroomId m = j_chatRoomId job
             \<and> m_content m = pr_content (jr_geminiResponse r)))
   \<and> (\<forall>g w1. UpdateProgress 10 \<notin> set down \<and> UpdateProgress 60 \<notin> set down
         \<and> UpdateProgress 80 \<notin> set down \<and> UpdateProgress 100 \<notin> set down
         \<and> callGeminiAPI service down (j_userMessage job) (j_context job) w = (Inr g, w1)
         \<and> (GetClient \<in> set down \<or> ChatroomFindFirst \<in> set down \<or> MessageCreate \<in> set down
              \<or> find (\<lambda>c. c_id c = j_chatRoomId job) (w_chatrooms w) = None) \<longrightarrow>
         (\<exists>r. processGeminiJob service down job w = (Inr r, w1)
            \<and> jr_savedMessageId r = ''failed-save''
            \<and> pr_content (jr_geminiResponse r) = gr_content g
            \<and> w_messages w1 = w_messages w))"
  using processGeminiJob_completed [of service down job w]
    processGeminiJob_save_failed [of down service job w]
  by blast


text \<open>The example service, which answers \<open>Hello!\<close> to every request.\<close>

lemma callGeminiAPI_service_ok:
  assumes "getConversationHistory down (context_chatRoomId ctx) w = (Inr h, w)"
  shows "callGeminiAPI service_ok down umsg ctx w
         = (Inr hello_response, w\<lparr>w_genRequests := w_genRequests w @ [built_request h umsg ctx]\<rparr>)"
  using assms
  by (simp add: callGeminiAPI_def generateResponse_def io_bind_def io_catch_def Let_def
        service_ok_def built_request_def formatHistoryForGemini_id hello_response_def
      split: option.splits)

lemma processGeminiResponse_hello:
  "processGeminiResponse hello_response ctx v = (Inr (hello_processed ctx), v)"
  by (simp add: processGeminiResponse_def io_return_def hello_processed_def hello_response_def
      js_def split_space_count_def)

lemma room_job_call:
  "callGeminiAPI service_ok [MessageCreate] (j_userMessage room_job) (j_context room_job) w0
     = (Inr hello_response,
        w0\<lparr>w_genRequests := [built_request [] (j_userMessage room_job) (j_context room_job)]\<rparr>)"
proof -
  have "getConversationHistory [MessageCreate] (context_chatRoomId (j_context room_job)) w0
          = (Inr [], w0)"
    by (simp add: getConversationHistory_store_up room_job_def context_chatRoomId_def w0_def)
  from callGeminiAPI_service_ok [OF this] show ?thesis
    by (simp add: w0_def)
qed

theorem processGeminiJob_save_failure_completes_witness:
  "MessageCreate \<in> set [MessageCreate]
   \<and> callGeminiAPI service_ok [MessageCreate] (j_userMessage room_job) (j_context room_job) w0
       = (Inr hello_response,
          w0\<lparr>w_genRequests := [built_request [] (j_userMessage room_job) (j_context room_job)]\<rparr>)
   \<and> (\<exists>r. processGeminiJob service_ok [MessageCreate] room_job w0
             = (Inr r, w0\<lparr>w_genRequests :=
                               [built_request [] (j_userMessage room_job) (j_context room_job)]\<rparr>)
          \<and> jr_savedMessageId r = ''failed-save''
          \<and> pr_content (jr_geminiResponse r) = js ''Hello!'')"
  using processGeminiJob_save_failure_completes [of service_ok "[MessageCreate]" room_job w0]
    room_job_call
  by (simp add: hello_response_def)

text \<open>
  C1 as stated fails: generation succeeds, the write of the reply fails, and the
  job is reported as completed, with no message stored.
\<close>

theorem save_failure_not_reported_counterexample:
  "fst (processGeminiJob service_ok [MessageCreate] room_job w0)
     = Inr \<lparr>jr_messageId = ''m13'', jr_chatRoomId = ''room1'', jr_userId = ''u1'',
            jr_geminiResponse = hello_processed (j_context room_job),
            jr_savedMessageId = ''failed-save''\<rparr>
   \<and> w_messages (snd (processGeminiJob service_ok [MessageCreate] room_job w0)) = []"
proof -
  have sel: "j_messageId room_job = ''m13''" "j_chatRoomId room_job = ''room1''"
    "j_userId room_job = ''u1''"
    by (simp_all add: room_job_def)
  have save: "saveGeminiResponse [MessageCreate] ''m13'' ''room1'' ''u1'' resp v
         = (Inr \<lparr>sv_id = ''failed-save'', sv_content = js ''Failed to save AI response'',
                  sv_sender = ''ai'', sv_messageType = ''text''\<rparr>, v)" for resp v
    by (simp add: saveGeminiResponse_fails)
  have "processGeminiJob service_ok [MessageCreate] room_job w0
     = (Inr \<lparr>jr_messageId = ''m13'', jr_chatRoomId = ''room1'', jr_userId = ''u1'',
            jr_geminiResponse = hello_processed (j_context room_job),
            jr_savedMessageId = ''failed-save''\<rparr>,
        w0\<lparr>w_genRequests := [built_request [] (j_userMessage room_job) (j_context room_job)]\<rparr>)"
    by (simp add: processGeminiJob_def updateProgress_def available_def io_bind_unfold
        io_catch_unfold io_return_def room_job_call processGeminiResponse_hello sel save)
  then show ?thesis
    by (simp add: w0_def)
qed

section \<open>Generation failures and the queue's retries\<close>

lemma processGeminiJob_generation_fails:
  assumes "UpdateProgress 10 \<notin> set down" and "\<forall>rq. \<exists>f. service rq = Inl f"
  shows "\<exists>rq. processGeminiJob service down job w
           = (Inl (Error ''Failed to call Gemini API''),
              w\<lparr>w_genRequests := w_genRequests w @ [rq]\<rparr>)"
proof -
  obtain h where h: "getConversationHistory down (context_chatRoomId (j_context job)) w = (Inr h, w)"
    using getConversationHistory_pure by blast
  let ?ctx = "\<lparr>gc_chatRoomId = or_default (context_chatRoomId (j_context job)) ''unknown'',
           gc_userId = or_default (context_userId (j_context job)) ''unknown'',
           gc_conversationHistory = h,
           gc_systemPrompt = Some (generateSystemPrompt (context_chatRoomId (j_context job))),
           gc_maxTokens = Some 2048\<rparr>"
  let ?rq = "built_request h (j_userMessage job) (j_context job)"
  from assms(2) obtain f where "service ?rq = Inl f"
    by blast
  then have "\<exists>e. generateResponse service (j_userMessage job) ?ctx w
                 = (Inl e, w\<lparr>w_genRequests := w_genRequests w @ [?rq]\<rparr>)"
    by (simp add: generateResponse_def Let_def built_request_def formatHistoryForGemini_id)
  then obtain rq e where "generateResponse service (j_userMessage job) ?ctx w
                 = (Inl e, w\<lparr>w_genRequests := w_genRequests w @ [rq]\<rparr>)"
    by blast
  with h have "callGeminiAPI service down (j_userMessage job) (j_context job) w
                = (Inl (Error ''Failed to call Gemini API''),
                   w\<lparr>w_genRequests := w_genRequests w @ [rq]\<rparr>)"
    by (simp add: callGeminiAPI_def io_bind_def io_catch_def io_throw_def)
  with assms(1) show ?thesis
    by (auto simp: processGeminiJob_def updateProgress_def available_def io_bind_def io_catch_def
        io_return_def io_throw_def)
qed

lemma run_attempts_all_fail:
  assumes "\<forall>n rq. \<exists>f. ae_service (env n) rq = Inl f"
    and "\<forall>n. UpdateProgress 10 \<notin> set (ae_down (env n))"
  shows "\<exists>w'. run_attempts k made delay env job w
                = (\<lparr>dl_state = Failed (Error ''Failed to call Gemini API''),
                    dl_attemptsMade = made + k + 1\<rparr>, w')
              \<and> w_messages w' = w_messages w
              \<and> length (w_genRequests w') = length (w_genRequests w) + k + 1"
proof (induction k arbitrary: made w)
  case 0
  from processGeminiJob_generation_fails [of "ae_down (env made)" "ae_service (env made)" job w]
    assms
  obtain rq where "processGeminiJob (ae_service (env made)) (ae_down (env made)) job w
           = (Inl (Error ''Failed to call Gemini API''),
              w\<lparr>w_genRequests := w_genRequests w @ [rq]\<rparr>)"
    by blast
  then show ?case by simp
next
  case (Suc k)
  from processGeminiJob_generation_fails [of "ae_down (env made)" "ae_service (env made)" job w]
    assms
  obtain rq where step: "processGeminiJob (ae_service (env made)) (ae_down (env made)) job w
           = (Inl (Error ''Failed to call Gemini API''),
              w\<lparr>w_genRequests := w_genRequests w @ [rq]\<rparr>)"
    by blast
  let ?w1 = "w\<lparr>w_genRequests := w_genRequests w @ [rq], w_now := w_now w + delay * 2 ^ made\<rparr>"
  from Suc.IH [of "Suc made" ?w1] obtain w' where
    "run_attempts k (Suc made) delay env job ?w1
       = (\<lparr>dl_state = Failed (Error ''Failed to call Gemini API''),
           dl_attemptsMade = Suc made + k + 1\<rparr>, w')"
    "w_messages w' = w_messages ?w1"
    "length (w_genRequests w') = length (w_genRequests ?w1) + k + 1"
    by blast
  with step show ?case by simp
qed

text \<open>
  C4, as the code has it. The worker does not look at the kind of a generation failure:
  whichever failures the service raises, \<open>callGeminiAPI\<close> turns each into the same error
  \<open>Failed to call Gemini API\<close>, and the queue's default options retry the failed job like
  any other. A job whose generation fails at every attempt has called the service three
  times when it reaches the failed state, and has stored no message.
\<close>

theorem generation_failures_retried_alike:
  assumes "\<forall>n rq. \<exists>f. ae_service (env n) rq = Inl f"
    and "\<forall>n. UpdateProgress 10 \<notin> set (ae_down (env n))"
  shows "\<exists>w'. deliver getDefaultQueueOptions env job w
                = (\<lparr>dl_state = Failed (Error ''Failed to call Gemini API''),
                    dl_attemptsMade = 3\<rparr>, w')
              \<and> w_messages w' = w_messages w
              \<and> length (w_genRequests w') = length (w_genRequests w) + 3"
proof -
  from run_attempts_all_fail [OF assms, of 2 0 2000 job w] obtain w' where
    run: "run_attempts 2 0 2000 env job w
            = (\<lparr>dl_state = Failed (Error ''Failed to call Gemini API''),
                dl_attemptsMade = 0 + 2 + 1\<rparr>, w')"
    and same: "w_messages w' = w_messages w"
    and asked: "length (w_genRequests w') = length (w_genRequests w) + 2 + 1"
    by blast
  have "deliver getDefaultQueueOptions env job w = run_attempts 2 0 2000 env job w"
    by (simp add: deliver_def getDefaultQueueOptions_def)
  with run same asked show ?thesis by simp
qed

theorem generation_failures_retried_alike_witness:
  "classify (uf_kind \<lparr>uf_kind = SafetyRejection,
                       uf_message = Some ''Response was blocked due to SAFETY''\<rparr>)
     = PermanentlyRejected
   \<and> (\<exists>w'. deliver getDefaultQueueOptions env_always_rejected room_job w0
                = (\<lparr>dl_state = Failed (Error ''Failed to call Gemini API''),
                    dl_attemptsMade = 3\<rparr>, w')
              \<and> w_messages w' = []
              \<and> length (w_genRequests w') = 3)"
proof -
  have 1: "\<forall>n rq. \<exists>f. ae_service (env_always_rejected n) rq = Inl f"
    by (simp add: env_always_rejected_def service_rejects_def)
  have 2: "\<forall>n. UpdateProgress 10 \<notin> set (ae_down (env_always_rejected n))"
    by (simp add: env_always_rejected_def)
  from generation_failures_retried_alike [OF 1 2, of room_job w0] show ?thesis
    by (simp add: w0_def)
qed

lemma find_Some_set: "find P xs = Some y \<Longrightarrow> y \<in> set xs \<and> P y"
  by (induction xs) (auto split: if_splits)

lemma saveGeminiResponse_succeeds:
  assumes "find (\<lambda>c. c_id c = cid) (w_chatrooms w) \<noteq> None"
  shows "fst (saveGeminiResponse [] omid cid uid resp w)
           = Inr \<lparr>sv_id = w_cuid w (w_nextId w), sv_content = pr_content resp, sv_sender = ''ai'',
                  sv_messageType = ''text''\<rparr>"
  using assms
  by (auto simp: saveGeminiResponse_def io_defs store_defs Let_def
      split: if_splits option.splits prod.splits sum.splits
      dest: find_Some_set)

lemma processGeminiJob_service_ok:
  assumes "getConversationHistory [] (context_chatRoomId (j_context job)) w = (Inr h, w)"
    and "find (\<lambda>c. c_id c = j_chatRoomId job) (w_chatrooms w) \<noteq> None"
  shows "fst (processGeminiJob service_ok [] job w)
           = Inr \<lparr>jr_messageId = j_messageId job, jr_chatRoomId = j_chatRoomId job,
                  jr_userId = j_userId job, jr_geminiResponse = hello_processed (j_context job),
                  jr_savedMessageId = w_cuid w (w_nextId w)\<rparr>
         \<and> w_messages (snd (processGeminiJob service_ok [] job w))
             = w_messages w @ [\<lparr>m_id = w_cuid w (w_nextId w), m_chatroomId = j_chatRoomId job,
                  m_content = js ''Hello!'', m_sender = ''ai'', m_messageType = ''text'',
                  m_createdAt = w_now w\<rparr>]"
proof -
  let ?w1 = "w\<lparr>w_genRequests := w_genRequests w
                  @ [built_request h (j_userMessage job) (j_context job)]\<rparr>"
  have room: "find (\<lambda>c. c_id c = j_chatRoomId job) (w_chatrooms ?w1) \<noteq> None"
    using assms(2) by simp
  have save: "fst (saveGeminiResponse [] (j_messageId job) (j_chatRoomId job) (j_userId job)
                     (hello_processed (j_context job)) ?w1)
           = Inr \<lparr>sv_id = w_cuid w (w_nextId w), sv_content = js ''Hello!'', sv_sender = ''ai'',
                  sv_messageType = ''text''\<rparr>"
    using saveGeminiResponse_succeeds [OF room] by (simp add: hello_processed_def)
  have stored: "w_messages (snd (saveGeminiResponse [] (j_messageId job) (j_chatRoomId job)
                     (j_userId job) (hello_processed (j_context job)) ?w1))
           = w_messages w @ [\<lparr>m_id = w_cuid w (w_nextId w), m_chatroomId = j_chatRoomId job,
                  m_content = js ''Hello!'', m_sender = ''ai'', m_messageType = ''text'',
                  m_createdAt = w_now w\<rparr>]"
    using saveGeminiResponse_writes_unchecked [OF _ _ _ room] by (simp add: hello_processed_def)
  show ?thesis
    by (simp add: processGeminiJob_def updateProgress_def available_def io_bind_unfold
        io_catch_unfold io_return_def callGeminiAPI_service_ok [OF assms(1)]
        processGeminiResponse_hello save stored)
qed

text \<open>
  C4 as stated fails: a content-safety rejection, which the specification
  classifies as permanently rejected, is retried like any other failure. Here the first
  attempt is rejected, the job re-enters the queue, and its second attempt completes
  and stores a reply.
\<close>

theorem permanent_rejection_retried_counterexample:
  "classify SafetyRejection = PermanentlyRejected
   \<and> fst (deliver getDefaultQueueOptions env_rejected_once room_job w0)
       = \<lparr>dl_state = Completed \<lparr>jr_messageId = ''m13'', jr_chatRoomId = ''room1'',
                                 jr_userId = ''u1'',
                                 jr_geminiResponse = hello_processed (j_context room_job),
                                 jr_savedMessageId = ''c''\<rparr>,
          dl_attemptsMade = 2\<rparr>
   \<and> map m_sender (w_messages (snd (deliver getDefaultQueueOptions env_rejected_once room_job w0)))
       = [''ai'']"
proof -
  let ?rq = "built_request [] (j_userMessage room_job) (j_context room_job)"
  have hist: "getConversationHistory [] (context_chatRoomId (j_context room_job)) v = (Inr [], v)"
    if "w_messages v = []" for v
    using that
    by (simp add: getConversationHistory_store_up room_job_def context_chatRoomId_def)
  have first: "processGeminiJob service_rejects [] room_job w0
                 = (Inl (Error ''Failed to call Gemini API''), w0\<lparr>w_genRequests := [?rq]\<rparr>)"
    using hist [of w0]
    by (simp add: processGeminiJob_def updateProgress_def available_def io_bind_def io_catch_def
        io_return_def io_throw_def callGeminiAPI_def generateResponse_def Let_def
        service_rejects_def built_request_def formatHistoryForGemini_id w0_def)
  let ?w1 = "w0\<lparr>w_genRequests := [?rq], w_now := 3000\<rparr>"
  have second: "fst (processGeminiJob service_ok [] room_job ?w1)
           = Inr \<lparr>jr_messageId = ''m13'', jr_chatRoomId = ''room1'',
                  jr_userId = ''u1'', jr_geminiResponse = hello_processed (j_context room_job),
                  jr_savedMessageId = ''c''\<rparr>
         \<and> map m_sender (w_messages (snd (processGeminiJob service_ok [] room_job ?w1))) = [''ai'']"
    using processGeminiJob_service_ok [of room_job ?w1 "[]"] hist [of ?w1]
    by (simp add: w0_def room_job_def)
  have now: "w0\<lparr>w_genRequests := [?rq],
                w_now := w_now (w0\<lparr>w_genRequests := [?rq]\<rparr>) + 2000\<rparr> = ?w1"
    by (simp add: w0_def)
  obtain r v where run: "processGeminiJob service_ok [] room_job ?w1 = (r, v)"
    by (cases "processGeminiJob service_ok [] room_job ?w1")
  with second first now show ?thesis
    by (simp add: deliver_def getDefaultQueueOptions_def env_rejected_once_def
        numeral_2_eq_2)
qed

section \<open>Stored replies over the queue's retries\<close>

text \<open>
  The bound on stored replies is one per run of \<open>processGeminiJob\<close>, not one per job.
  When the reply has been stored and the last progress update then fails, the run throws,
  the queue runs the job again, and the second run stores a second reply.
\<close>

lemma retried_job_stores_reply_twice:
  "is_completed (dl_state (fst (deliver getDefaultQueueOptions env_late_failure room_job w0)))
   \<and> dl_attemptsMade (fst (deliver getDefaultQueueOptions env_late_failure room_job w0)) = 2
   \<and> map m_sender (w_messages (snd (deliver getDefaultQueueOptions env_late_failure room_job w0)))
       = [''ai'', ''ai'']"
proof -
  let ?rq = "built_request [] (j_userMessage room_job) (j_context room_job)"
  let ?reply = "\<lparr>m_id = ''c'', m_chatroomId = ''room1'', m_content = js ''Hello!'',
                  m_sender = ''ai'', m_messageType = ''text'', m_createdAt = 1000\<rparr>"
  let ?w1 = "w0\<lparr>w_messages := [?reply],
               w_chatrooms := [\<lparr>c_id = ''room1'', c_userId = ''u1'', c_updatedAt = 1000\<rparr>],
               w_genRequests := [?rq],
               w_cacheInvalidations := [(''room1'', ''u1'')],
               w_nextId := 1\<rparr>"
  have sel: "j_messageId room_job = ''m13''" "j_chatRoomId room_job = ''room1''"
    "j_userId room_job = ''u1''"
    "context_chatRoomId (j_context room_job) = Some ''room1''"
    by (simp_all add: room_job_def context_chatRoomId_def)
  have hist0: "getConversationHistory [UpdateProgress 100] (context_chatRoomId (j_context room_job)) w0
                 = (Inr [], w0)"
    by (simp add: sel getConversationHistory_store_up w0_def)
  have save0: "saveGeminiResponse [UpdateProgress 100] ''m13'' ''room1'' ''u1''
                 (hello_processed (j_context room_job)) (w0\<lparr>w_genRequests := [?rq]\<rparr>)
               = (Inr \<lparr>sv_id = ''c'', sv_content = js ''Hello!'', sv_sender = ''ai'',
                        sv_messageType = ''text''\<rparr>, ?w1)"
    by (simp add: saveGeminiResponse_def io_defs store_defs Let_def w0_def hello_processed_def)
  have first: "processGeminiJob service_ok [UpdateProgress 100] room_job w0
                 = (Inl (StoreError (UpdateProgress 100)), ?w1)"
    using callGeminiAPI_service_ok [OF hist0, of "j_userMessage room_job"] save0
    by (simp add: processGeminiJob_def updateProgress_def available_def io_bind_unfold
        io_catch_unfold io_return_def io_throw_def processGeminiResponse_hello sel w0_def)
  let ?w2 = "?w1\<lparr>w_now := 3000\<rparr>"
  have hist1: "\<exists>h. getConversationHistory [] (context_chatRoomId (j_context room_job)) ?w2
                      = (Inr h, ?w2)"
    by (rule getConversationHistory_pure)
  then obtain h where h: "getConversationHistory [] (context_chatRoomId (j_context room_job)) ?w2
                            = (Inr h, ?w2)"
    by blast
  have room: "find (\<lambda>c. c_id c = j_chatRoomId room_job) (w_chatrooms ?w2) \<noteq> None"
    by (simp add: sel w0_def)
  from processGeminiJob_service_ok [OF h room]
  have second: "map m_sender (w_messages (snd (processGeminiJob service_ok [] room_job ?w2)))
                  = [''ai'', ''ai'']"
    "\<exists>r. fst (processGeminiJob service_ok [] room_job ?w2) = Inr r"
    by (simp_all add: w0_def)
  then obtain r where r: "fst (processGeminiJob service_ok [] room_job ?w2) = Inr r"
    by blast
  obtain v where run: "processGeminiJob service_ok [] room_job ?w2 = (Inr r, v)"
    using r by (cases "processGeminiJob service_ok [] room_job ?w2") simp
  have now: "?w1\<lparr>w_now := w_now ?w1 + 2000\<rparr> = ?w2"
    by (simp add: w0_def)
  from first run second(1) now show ?thesis
    by (simp add: deliver_def getDefaultQueueOptions_def env_late_failure_def is_completed_def
        numeral_2_eq_2)
qed

section \<open>Usage tracking: one call, calls in a row, overlapping calls\<close>

text \<open>The three steps of a call, run with nothing in between, are \<open>trackMessageUsage\<close>.\<close>

lemma track_steps_are_trackMessageUsage:
  "(case track_step down uid T_Start w of (pc1, w1) \<Rightarrow>
    case track_step down uid pc1 w1 of (pc2, w2) \<Rightarrow>
    case track_step down uid pc2 w2 of (pc3, w3) \<Rightarrow>
      (pc3 = T_Done \<and> trackMessageUsage down uid w = (Inr (), w3))
      \<or> (\<exists>e. pc3 = T_Threw e \<and> trackMessageUsage down uid w = (Inl e, w3)))"
  by (auto simp: track_step_def trackMessageUsage_def io_defs store_defs Let_def
      split: option.splits prod.splits sum.splits track_pc.splits)

lemma find_None_set: "find P xs = None \<Longrightarrow> \<forall>x \<in> set xs. \<not> P x"
  by (induction xs) (auto split: if_splits)

lemma find_append_new: "find P xs = None \<Longrightarrow> P y \<Longrightarrow> find P (xs @ [y]) = Some y"
  by (induction xs) (auto split: if_splits)

lemma find_map_same_key:
  "(\<And>x. P (f x) = P x) \<Longrightarrow> find P (map f xs) = map_option f (find P xs)"
  by (induction xs) auto

lemma still_listed:
  "\<exists>u \<in> set us. u_id u = uid \<Longrightarrow>
     \<exists>u \<in> set (map (\<lambda>u. if u_id u = uid
                             then u\<lparr>u_dailyMessageCount := n, u_lastMessageDate := t\<rparr>
                             else u) us). u_id u = uid"
  by (induction us) auto

lemma trackMessageUsage_once:
  assumes "\<exists>u \<in> set (w_users w). u_id u = uid"
  shows "\<exists>w'. trackMessageUsage [] uid w = (Inr (), w')
           \<and> usageCount uid (startOfDay (w_now w)) w'
               = usageCount uid (startOfDay (w_now w)) w + 1
           \<and> w_now w' = w_now w
           \<and> (\<exists>u \<in> set (w_users w'). u_id u = uid)"
proof (cases "find (\<lambda>d. d_userId d = uid \<and> d_date d = startOfDay (w_now w)) (w_dailyUsages w)")
  case None
  from find_None_set [OF None]
  have fresh: "\<not> (\<exists>d \<in> set (w_dailyUsages w). d_userId d = uid \<and> d_date d = startOfDay (w_now w))"
    by blast
  have found: "find (\<lambda>d. d_userId d = uid \<and> d_date d = startOfDay (w_now w))
                 (w_dailyUsages w @ [\<lparr>d_id = i, d_userId = uid, d_date = startOfDay (w_now w),
                                       d_messageCount = 1\<rparr>])
               = Some \<lparr>d_id = i, d_userId = uid, d_date = startOfDay (w_now w),
                       d_messageCount = 1\<rparr>" for i
    using find_append_new [OF None] by simp
  show ?thesis
    using None fresh assms found
    by (simp add: trackMessageUsage_def io_defs store_defs Let_def usageCount_def still_listed
        del: set_map)
next
  case (Some d0)
  let ?f = "\<lambda>d. if d_id d = d_id d0 then d\<lparr>d_messageCount := d_messageCount d0 + 1\<rparr> else d"
  from find_Some_set [OF Some] have mem: "d0 \<in> set (w_dailyUsages w)"
    by simp
  with find_None_set [of "\<lambda>d. d_id d = d_id d0" "w_dailyUsages w"]
  obtain y where byid: "find (\<lambda>d. d_id d = d_id d0) (w_dailyUsages w) = Some y"
    by blast
  have "find (\<lambda>d. d_userId d = uid \<and> d_date d = startOfDay (w_now w)) (map ?f (w_dailyUsages w))
          = map_option ?f (find (\<lambda>d. d_userId d = uid \<and> d_date d = startOfDay (w_now w))
                             (w_dailyUsages w))"
    by (rule find_map_same_key) simp
  with Some have found: "find (\<lambda>d. d_userId d = uid \<and> d_date d = startOfDay (w_now w))
                           (map ?f (w_dailyUsages w))
                         = Some (d0\<lparr>d_messageCount := d_messageCount d0 + 1\<rparr>)"
    by simp
  show ?thesis
    using Some byid assms found
    by (simp add: trackMessageUsage_def io_defs store_defs Let_def usageCount_def still_listed
        del: set_map)
qed

text \<open>
  C3, as the code has it. With the store up and the user's row present, \<open>M\<close> calls of
  \<open>trackMessageUsage\<close> made one after the other leave today's count at the initial count
  plus \<open>M\<close>. (The count is read by one store call and written back, plus one, by a second:
  the theorem is about calls that do not overlap.)
\<close>

theorem trackMessageUsage_sequential_count:
  assumes "\<exists>u \<in> set (w_users w). u_id u = uid"
  shows "usageCount uid (startOfDay (w_now w)) (sequentially M (trackMessageUsage [] uid) w)
         = usageCount uid (startOfDay (w_now w)) w + int M"
  using assms
proof (induction M arbitrary: w)
  case 0
  then show ?case by simp
next
  case (Suc M)
  from trackMessageUsage_once [OF Suc.prems] obtain w' where
    one: "trackMessageUsage [] uid w = (Inr (), w')"
      "usageCount uid (startOfDay (w_now w)) w' = usageCount uid (startOfDay (w_now w)) w + 1"
      "w_now w' = w_now w" "\<exists>u \<in> set (w_users w'). u_id u = uid"
    by blast
  from Suc.IH [OF one(4)] one show ?case
    by simp
qed

theorem trackMessageUsage_sequential_count_witness:
  "(\<exists>u \<in> set (w_users w4). u_id u = ''u1'')
   \<and> usageCount ''u1'' 0 w4 = 4
   \<and> usageCount ''u1'' 0 (sequentially 2 (trackMessageUsage [] ''u1'') w4) = 6"
proof -
  have 1: "\<exists>u \<in> set (w_users w4). u_id u = ''u1''"
    by (simp add: w4_def w0_def)
  have 2: "startOfDay (w_now w4) = 0" "usageCount ''u1'' 0 w4 = 4"
    by (simp_all add: w4_def w0_def startOfDay_def usageCount_def)
  from trackMessageUsage_sequential_count [OF 1, of 2] 1 2 show ?thesis
    by simp
qed

text \<open>
  C3 as stated fails. Two calls for the same user and day both read the row at
  count 4 before either writes; each then writes 5. Both calls finish without error and
  the count is 5, not 6: one update is lost.
\<close>

theorem overlapping_calls_lose_update_counterexample:
  "usageCount ''u1'' 0 w4 = 4
   \<and> fst (run_schedule [] ''u1'' [0, 1, 0, 1, 0, 1] [T_Start, T_Start] w4) = [T_Done, T_Done]
   \<and> usageCount ''u1'' 0 (snd (run_schedule [] ''u1'' [0, 1, 0, 1, 0, 1] [T_Start, T_Start] w4))
       = 5"
  by (simp add: w4_def w0_def usageCount_def track_step_def io_defs store_defs startOfDay_def)

end
